theory Spec2Isabelle
  imports Main "HOL-Library.Code_Target_Numeral"
begin

section \<open>JavaScript values used by the client\<close>

text \<open>
  A JavaScript \<open>number\<close> is a double. The numbers the client handles (a status, a timeout,
  an interval, a number of attempts) are modelled by integers of either sign; fractions
  are outside the model. Where the code makes a number from text (\<open>parseInt\<close>) or text from
  a number (a template literal), the integer is rounded to the nearest double first, so
  these two operations give what the code gives for every integer. Strings are lists of
  8-bit code units: header values are byte strings, which is the only place where the code
  looks inside a string.
\<close>

datatype number = Num int | NaN | PosInfinity | NegInfinity

text \<open>
  \<open>a || d\<close> for an optional string and for an optional number: \<open>undefined\<close>, the empty
  string and \<open>0\<close> are falsy.
\<close>

definition or_string :: "string option \<Rightarrow> string \<Rightarrow> string" where
  "or_string v d = (case v of None \<Rightarrow> d | Some s \<Rightarrow> if s \<noteq> [] then s else d)"

definition or_number :: "int option \<Rightarrow> int \<Rightarrow> int" where
  "or_number v d = (case v of None \<Rightarrow> d | Some n \<Rightarrow> if n \<noteq> 0 then n else d)"

subsection \<open>The double nearest to an integer\<close>

text \<open>
  Every integer up to \<open>2^53\<close> in magnitude is a double. Beyond, a double keeps the 53
  leading bits: the integer is rounded to the nearest such value, to the even one of two
  equally near, and from \<open>2^1024\<close> on the result is an infinity.
\<close>

fun bit_length :: "nat \<Rightarrow> nat" where
  "bit_length n = (if n = 0 then 0 else Suc (bit_length (n div 2)))"

declare bit_length.simps [simp del]

definition to_double :: "int \<Rightarrow> number" where
  "to_double n =
     (let a = nat \<bar>n\<bar> in
      if a \<le> 2 ^ 53 then Num n
      else
        (let shift = bit_length a - 53;
             q = a div 2 ^ shift;
             r = a mod 2 ^ shift;
             half = 2 ^ (shift - 1);
             q' = (if half < r \<or> (r = half \<and> odd q) then q + 1 else q);
             v = q' * 2 ^ shift
         in if 2 ^ 1024 \<le> v then (if n < 0 then NegInfinity else PosInfinity)
            else Num (if n < 0 then - int v else int v)))"

subsection \<open>A number in a template literal\<close>

text \<open>
  \<open>`${n}`\<close> is \<open>Number::toString\<close>: the decimal digits of the integer up to \<open>2^53\<close>. A larger
  double is printed with the fewest significant digits that still read back as the same
  double (the nearest such, the even one of two equally near), followed by zeros below
  \<open>10^21\<close> and in exponent form from there on.
\<close>

definition digit_char :: "nat \<Rightarrow> char" where
  "digit_char d = char_of (48 + d)"

fun string_of_nat :: "nat \<Rightarrow> string" where
  "string_of_nat n =
     (if n < 10 then [digit_char n]
      else string_of_nat (n div 10) @ [digit_char (n mod 10)])"

declare string_of_nat.simps [simp del]

text \<open>
  The multiple of \<open>10^e\<close> next to the double \<open>v\<close> (below or above) that reads back as \<open>v\<close>,
  if there is one; and the first such for \<open>e\<close> from the largest down.
\<close>

definition candidate :: "nat \<Rightarrow> nat \<Rightarrow> nat option" where
  "candidate v e =
     (let lo = (v div 10 ^ e) * 10 ^ e;
          hi = lo + 10 ^ e;
          ok_lo = (to_double (int lo) = Num (int v));
          ok_hi = (to_double (int hi) = Num (int v))
      in if ok_lo \<and> ok_hi then
           (if v - lo < hi - v then Some lo
            else if hi - v < v - lo then Some hi
            else if even (v div 10 ^ e) then Some lo else Some hi)
         else if ok_lo then Some lo
         else if ok_hi then Some hi
         else None)"

definition shortest :: "nat \<Rightarrow> nat" where
  "shortest v =
     (case List.map_filter (candidate v) (rev [1..<length (string_of_nat v)]) of
        [] \<Rightarrow> v
      | c # cs \<Rightarrow> c)"

definition exponent_form :: "nat \<Rightarrow> string" where
  "exponent_form c =
     (let ds = string_of_nat c;
          s = rev (dropWhile (\<lambda>d. d = CHR ''0'') (rev ds))
      in (case s of [] \<Rightarrow> [] | d # r \<Rightarrow> if r = [] then [d] else d # CHR ''.'' # r)
         @ ''e+'' @ string_of_nat (length ds - 1))"

definition string_of_magnitude :: "nat \<Rightarrow> string" where
  "string_of_magnitude v =
     (if v \<le> 2 ^ 53 then string_of_nat v
      else (let c = shortest v
            in if c < 10 ^ 21 then string_of_nat c else exponent_form c))"

definition string_of_int :: "int \<Rightarrow> string" where
  "string_of_int i =
     (case to_double i of
        NaN \<Rightarrow> ''NaN''
      | PosInfinity \<Rightarrow> ''Infinity''
      | NegInfinity \<Rightarrow> ''-Infinity''
      | Num v \<Rightarrow> if v < 0 then CHR ''-'' # string_of_magnitude (nat (- v))
                 else string_of_magnitude (nat v))"

subsection \<open>\<open>parseInt(s, 10)\<close>\<close>

text \<open>
  ECMAScript \<open>parseInt\<close> with radix 10: leading white space is skipped, one sign is read,
  the longest prefix of decimal digits is the value, anything after it is ignored; with no
  digit the result is \<open>NaN\<close>. White space among the 8-bit code units is TAB, LF, VT, FF,
  CR, SP and NBSP. The result is the double nearest to the signed value of the digits
  (\<open>-0\<close> is not told from \<open>0\<close>).
\<close>

definition isWhiteSpace :: "char \<Rightarrow> bool" where
  "isWhiteSpace c = ((of_char c :: nat) \<in> {9, 10, 11, 12, 13, 32, 160})"

definition isDigit :: "char \<Rightarrow> bool" where
  "isDigit c = (48 \<le> (of_char c :: nat) \<and> (of_char c :: nat) \<le> 57)"

definition digits_value :: "string \<Rightarrow> int" where
  "digits_value ds = foldl (\<lambda>a c. 10 * a + (int (of_char c) - 48)) 0 ds"

definition strip_sign :: "string \<Rightarrow> string" where
  "strip_sign s = (case s of [] \<Rightarrow> [] | c # r \<Rightarrow> if c = CHR ''+'' \<or> c = CHR ''-'' then r else s)"

definition sign_of :: "string \<Rightarrow> int" where
  "sign_of s = (case s of [] \<Rightarrow> 1 | c # r \<Rightarrow> if c = CHR ''-'' then - 1 else 1)"

definition parseInt :: "string \<Rightarrow> number" where
  "parseInt s =
     (let s1 = dropWhile isWhiteSpace s;
          z = takeWhile isDigit (strip_sign s1)
      in if z = [] then NaN else to_double (sign_of s1 * digits_value z))"

section \<open>types.ts\<close>

text \<open>A value of type \<open>unknown\<close> is opaque to the client; it is kept as its JSON text.\<close>

type_synonym unknown = string

record FormatOptions =
  timestamp :: "bool option"
  paragraphs :: "bool option"
  words :: "bool option"

datatype Source = Auto | Manual | Asr

record TranscribeRequest =
  video :: string
  language :: "string option"
  source :: "Source option"
  allow_asr :: "bool option"
  format :: "FormatOptions option"
  webhook_url :: "string option"

record BatchRequest =
  video_ids :: "string list"
  language :: "string option"
  source :: "Source option"
  allow_asr :: "bool option"
  format :: "FormatOptions option"
  webhook_url :: "string option"

record TranscriptPayload =
  text' :: string
  language :: string
  source :: string
  segments :: "(string \<times> unknown) list list option"
  paragraphs :: "(string \<times> unknown) list list option"
  words :: "(string \<times> unknown) list list option"

datatype TranscribeStatus = Completed | Processing | Failed | Requires_asr_confirmation

record TranscribeData =
  video_id :: string
  transcript :: TranscriptPayload
  video_title :: "string option option"

record TranscribeResponse =
  request_id :: string
  status :: TranscribeStatus
  data :: "TranscribeData option"
  error :: "string option"
  job_id :: "string option option"
  estimated_credits :: "int option"
  duration_minutes :: "int option option"
  suggestion :: "string option"
  credits_used :: "int option"

datatype BatchStatus = Batch_completed | Batch_partial | Batch_processing

record BatchSummary =
  total :: int
  succeeded :: int
  failed :: int
  processing :: int

record BatchResponse =
  batch_id :: string
  status :: BatchStatus
  results :: "TranscribeResponse list"
  summary :: "BatchSummary option"
  credits_used :: "int option"

record ErrorResponse =
  error :: string
  message :: string
  details :: "(string \<times> unknown) list option"

record YouTubeTranscriptOptions =
  apiKey :: "string option"
  baseUrl :: "string option"
  timeout :: "int option"

section \<open>errors.ts\<close>

text \<open>
  The six classes of errors.ts as one record with the class as a tag. \<open>retryAfter\<close> exists
  on \<open>RateLimitError\<close> only; \<open>None\<close> is \<open>undefined\<close>.
\<close>

datatype error_class =
    YouTubeTranscriptError_class
  | InvalidRequestError_class
  | AuthenticationError_class
  | InsufficientCreditsError_class
  | NoCaptionsError_class
  | RateLimitError_class

record YouTubeTranscriptError =
  cls :: error_class
  name :: string
  message :: string
  status :: int
  errorCode :: string
  details :: "(string \<times> unknown) list option"
  retryAfter :: "number option"

definition new_YouTubeTranscriptError :: "int \<Rightarrow> ErrorResponse \<Rightarrow> YouTubeTranscriptError" where
  "new_YouTubeTranscriptError st body =
     \<lparr> cls = YouTubeTranscriptError_class,
       name = ''YouTubeTranscriptError'',
       message = (if ErrorResponse.message body \<noteq> [] then ErrorResponse.message body
                  else ErrorResponse.error body),
       status = st,
       errorCode = ErrorResponse.error body,
       details = ErrorResponse.details body,
       retryAfter = None \<rparr>"

definition new_InvalidRequestError :: "ErrorResponse \<Rightarrow> YouTubeTranscriptError" where
  "new_InvalidRequestError body =
     (new_YouTubeTranscriptError 400 body)
       \<lparr> cls := InvalidRequestError_class, name := ''InvalidRequestError'' \<rparr>"

definition new_AuthenticationError :: "ErrorResponse \<Rightarrow> YouTubeTranscriptError" where
  "new_AuthenticationError body =
     (new_YouTubeTranscriptError 401 body)
       \<lparr> cls := AuthenticationError_class, name := ''AuthenticationError'' \<rparr>"

definition new_InsufficientCreditsError :: "ErrorResponse \<Rightarrow> YouTubeTranscriptError" where
  "new_InsufficientCreditsError body =
     (new_YouTubeTranscriptError 402 body)
       \<lparr> cls := InsufficientCreditsError_class, name := ''InsufficientCreditsError'' \<rparr>"

definition new_NoCaptionsError :: "ErrorResponse \<Rightarrow> YouTubeTranscriptError" where
  "new_NoCaptionsError body =
     (new_YouTubeTranscriptError 404 body)
       \<lparr> cls := NoCaptionsError_class, name := ''NoCaptionsError'' \<rparr>"

definition new_RateLimitError :: "ErrorResponse \<Rightarrow> number option \<Rightarrow> YouTubeTranscriptError" where
  "new_RateLimitError body ra =
     (new_YouTubeTranscriptError 429 body)
       \<lparr> cls := RateLimitError_class, name := ''RateLimitError'', retryAfter := ra \<rparr>"

section \<open>client.ts: the error mapper\<close>

text \<open>
  \<open>Headers\<close>: a list of name/value pairs. A \<open>Headers\<close> object keeps each value without
  its leading and trailing HTTP white space (TAB, LF, CR, SP); \<open>get\<close> compares names without
  case and joins the values of a repeated header with a comma and a space, \<open>null\<close> when
  there is none.
\<close>

type_synonym Headers = "(string \<times> string) list"

definition lower_char :: "char \<Rightarrow> char" where
  "lower_char c = (if 65 \<le> (of_char c :: nat) \<and> (of_char c :: nat) \<le> 90
                   then char_of ((of_char c :: nat) + 32) else c)"

definition isHttpWhiteSpace :: "char \<Rightarrow> bool" where
  "isHttpWhiteSpace c = ((of_char c :: nat) \<in> {9, 10, 13, 32})"

definition normalize_value :: "string \<Rightarrow> string" where
  "normalize_value v =
     rev (dropWhile isHttpWhiteSpace (rev (dropWhile isHttpWhiteSpace v)))"

fun join_values :: "string list \<Rightarrow> string" where
  "join_values [] = []"
| "join_values [v] = v"
| "join_values (v # w # vs) = v @ '', '' @ join_values (w # vs)"

definition headers_get :: "Headers \<Rightarrow> string \<Rightarrow> string option" where
  "headers_get h n =
     (let vs = map (normalize_value \<circ> snd)
                 (filter (\<lambda>p. map lower_char (fst p) = map lower_char n) h)
      in if vs = [] then None else Some (join_values vs))"

definition createError :: "int \<Rightarrow> ErrorResponse \<Rightarrow> Headers \<Rightarrow> YouTubeTranscriptError" where
  "createError st body headers =
     (if st = 400 then new_InvalidRequestError body
      else if st = 401 then new_AuthenticationError body
      else if st = 402 then new_InsufficientCreditsError body
      else if st = 404 then new_NoCaptionsError body
      else if st = 429 then
        (let retryAfter = headers_get headers ''Retry-After''
         in new_RateLimitError body
              (case retryAfter of
                 None \<Rightarrow> None
               | Some v \<Rightarrow> if v \<noteq> [] then Some (parseInt v) else None))
      else new_YouTubeTranscriptError st body)"

section \<open>client.ts: the client and its environment\<close>

definition DEFAULT_BASE_URL :: string where
  "DEFAULT_BASE_URL = ''https://youtubetranscript.dev/api/v2''"

definition DEFAULT_TIMEOUT :: int where
  "DEFAULT_TIMEOUT = 30000"

text \<open>The fields of a \<open>YouTubeTranscript\<close> object.\<close>

record YouTubeTranscript =
  apiKey :: string
  baseUrl :: string
  timeout :: int

text \<open>
  What a \<open>throw\<close> carries: an instance of \<open>YouTubeTranscriptError\<close> (or of a subclass), or
  another error object, of which the code reads \<open>name\<close> only. \<open>instanceof
  YouTubeTranscriptError\<close> is the test for \<open>Typed\<close>.
\<close>

record Error =
  name :: string
  message :: string

datatype thrown = Typed YouTubeTranscriptError | Untyped Error

definition new_Error :: "string \<Rightarrow> Error" where
  "new_Error msg = \<lparr> name = ''Error'', message = msg \<rparr>"

text \<open>
  The call \<open>fetch(url, init)\<close>. The body is the object handed to \<open>JSON.stringify\<close>
  (\<open>None\<close> when the source passes \<open>undefined\<close>); every object is truthy.
\<close>

datatype body = TranscribeBody TranscribeRequest | BatchBody BatchRequest

record RequestInit =
  http_method :: string
  headers :: Headers
  body :: "body option"

text \<open>
  The parsed JSON document is untyped in the source (\<open>any\<close>): \<open>request\<close> casts it to the
  caller's \<open>T\<close> on success and hands it to \<open>createError\<close> as an \<open>ErrorResponse\<close> otherwise.
  No cast checks anything, so the document is modelled by its readings at the three types.
\<close>

record document =
  as_TranscribeResponse :: TranscribeResponse
  as_BatchResponse :: BatchResponse
  as_ErrorResponse :: ErrorResponse

text \<open>A \<open>Response\<close>; \<open>json\<close> is the outcome of \<open>response.json()\<close>, which may reject.\<close>

record Response =
  status :: int
  headers :: Headers
  json :: "Error + document"

definition ok :: "Response \<Rightarrow> bool" where
  "ok response = (200 \<le> Response.status response \<and> Response.status response \<le> 299)"

datatype fetch_result = Resolved Response | Rejected Error

text \<open>
  The network and the server: the outcome of the \<open>n\<close>-th \<open>fetch\<close> since the start of the
  run, as a function of the URL and the request. A rejection named \<open>AbortError\<close> is what
  the abort timer of \<open>request\<close> causes.
\<close>

type_synonym network = "nat \<Rightarrow> string \<Rightarrow> RequestInit \<Rightarrow> fetch_result"

text \<open>
  The effects of the client, in order: a \<open>fetch\<close> with the duration of its abort timer, and
  the timer a polling loop waits for.
\<close>

datatype event = Fetch string RequestInit int | Delay int

fun is_Fetch :: "event \<Rightarrow> bool" where
  "is_Fetch (Fetch u i t) = True"
| "is_Fetch (Delay d) = False"

definition fetches :: "event list \<Rightarrow> nat" where
  "fetches tr = length (filter is_Fetch tr)"

record state =
  this :: YouTubeTranscript
  trace :: "event list"

definition strip_trailing_slashes :: "string \<Rightarrow> string" where
  "strip_trailing_slashes s = rev (dropWhile (\<lambda>c. c = CHR ''/'') (rev s))"

text \<open>The constructor; it is handed the trace of effects so far and returns it.\<close>

definition constructor ::
  "YouTubeTranscriptOptions \<Rightarrow> event list \<Rightarrow> (thrown + YouTubeTranscript) \<times> event list" where
  "constructor options tr =
     (case YouTubeTranscriptOptions.apiKey options of
        None \<Rightarrow>
          (Inl (Untyped (new_Error ''API key is required. Get one at https://youtubetranscript.dev'')), tr)
      | Some k \<Rightarrow>
          if k = [] then
            (Inl (Untyped (new_Error ''API key is required. Get one at https://youtubetranscript.dev'')), tr)
          else
            (Inr \<lparr> apiKey = k,
                   baseUrl = strip_trailing_slashes
                     (or_string (YouTubeTranscriptOptions.baseUrl options) DEFAULT_BASE_URL),
                   timeout = or_number (YouTubeTranscriptOptions.timeout options) DEFAULT_TIMEOUT \<rparr>,
             tr))"

subsection \<open>HTTP helpers\<close>

definition request ::
  "network \<Rightarrow> string \<Rightarrow> string \<Rightarrow> body option \<Rightarrow> state \<Rightarrow> (thrown + document) \<times> state" where
  "request net meth path b st =
     (let url = YouTubeTranscript.baseUrl (this st) @ path;
          init = \<lparr> http_method = meth,
                   headers = [(''Authorization'', ''Bearer '' @ YouTubeTranscript.apiKey (this st)),
                              (''Content-Type'', ''application/json''),
                              (''User-Agent'', ''youtube-transcript-sdk/1.0.0'')],
                   body = b \<rparr>;
          st1 = st \<lparr> trace := trace st @ [Fetch url init (YouTubeTranscript.timeout (this st))] \<rparr>;
          attempt =
            (case net (fetches (trace st)) url init of
               Rejected e \<Rightarrow> Inl (Untyped e)
             | Resolved response \<Rightarrow>
                 (case json response of
                    Inl e \<Rightarrow> Inl (Untyped e)
                  | Inr d \<Rightarrow>
                      if \<not> ok response then
                        Inl (Typed (createError (Response.status response) (as_ErrorResponse d)
                                      (Response.headers response)))
                      else Inr d))
      in (case attempt of
            Inr d \<Rightarrow> (Inr d, st1)
          | Inl (Typed e) \<Rightarrow> (Inl (Typed e), st1)
          | Inl (Untyped e) \<Rightarrow>
              if Error.name e = ''AbortError'' then
                (Inl (Untyped (new_Error (''Request to '' @ path @ '' timed out after ''
                    @ string_of_int (YouTubeTranscript.timeout (this st)) @ ''ms''))), st1)
              else (Inl (Untyped e), st1)))"

definition post :: "network \<Rightarrow> string \<Rightarrow> body \<Rightarrow> state \<Rightarrow> (thrown + document) \<times> state" where
  "post net path b st = request net ''POST'' path (Some b) st"

definition get :: "network \<Rightarrow> string \<Rightarrow> state \<Rightarrow> (thrown + document) \<times> state" where
  "get net path st = request net ''GET'' path None st"

text \<open>The cast of the resolved document to the method's return type.\<close>

definition cast :: "(document \<Rightarrow> 'a) \<Rightarrow> (thrown + document) \<times> state \<Rightarrow> (thrown + 'a) \<times> state" where
  "cast as r = (case r of (Inl e, st) \<Rightarrow> (Inl e, st) | (Inr d, st) \<Rightarrow> (Inr (as d), st))"

subsection \<open>Public methods\<close>

definition transcribe ::
  "network \<Rightarrow> TranscribeRequest \<Rightarrow> state \<Rightarrow> (thrown + TranscribeResponse) \<times> state" where
  "transcribe net req st = cast as_TranscribeResponse (post net ''/transcribe'' (TranscribeBody req) st)"

definition getTranscript ::
  "network \<Rightarrow> string \<Rightarrow> string option \<Rightarrow> state \<Rightarrow> (thrown + TranscribeResponse) \<times> state" where
  "getTranscript net v lang st =
     transcribe net \<lparr> video = v, language = lang, source = None, allow_asr = None,
                      format = None, webhook_url = None \<rparr> st"

definition batch ::
  "network \<Rightarrow> BatchRequest \<Rightarrow> state \<Rightarrow> (thrown + BatchResponse) \<times> state" where
  "batch net req st = cast as_BatchResponse (post net ''/batch'' (BatchBody req) st)"

record JobOptions =
  include_segments :: "bool option"
  include_paragraphs :: "bool option"
  include_words :: "bool option"

text \<open>\<open>options?.f\<close> as a condition: true only for a supplied \<open>true\<close>.\<close>

definition flag :: "JobOptions option \<Rightarrow> (JobOptions \<Rightarrow> bool option) \<Rightarrow> bool" where
  "flag options f = (case options of None \<Rightarrow> False | Some opts \<Rightarrow> f opts = Some True)"

fun join_params :: "string list \<Rightarrow> string" where
  "join_params [] = []"
| "join_params [p] = p"
| "join_params (p # q # ps) = p @ ''&'' @ join_params (q # ps)"

definition getJob ::
  "network \<Rightarrow> string \<Rightarrow> JobOptions option \<Rightarrow> state \<Rightarrow> (thrown + TranscribeResponse) \<times> state" where
  "getJob net jobId options st =
     (let params = (if flag options include_segments then [''include_segments=true''] else [])
                 @ (if flag options include_paragraphs then [''include_paragraphs=true''] else [])
                 @ (if flag options include_words then [''include_words=true''] else []);
          query = join_params params;
          path = ''/jobs/'' @ jobId @ (if query \<noteq> [] then ''?'' @ query else [])
      in cast as_TranscribeResponse (get net path st))"

definition getBatch ::
  "network \<Rightarrow> string \<Rightarrow> state \<Rightarrow> (thrown + BatchResponse) \<times> state" where
  "getBatch net batchId st = cast as_BatchResponse (get net (''/batch/'' @ batchId) st)"

text \<open>\<open>await new Promise((resolve) => setTimeout(resolve, interval))\<close>\<close>

definition sleep :: "int \<Rightarrow> state \<Rightarrow> state" where
  "sleep interval st = st \<lparr> trace := trace st @ [Delay interval] \<rparr>"

text \<open>
  The \<open>for\<close> loops of \<open>waitForJob\<close> and \<open>waitForBatch\<close>, with the counter \<open>i\<close> as an argument.
\<close>

function waitForJob_loop ::
  "network \<Rightarrow> string \<Rightarrow> int \<Rightarrow> int \<Rightarrow> int \<Rightarrow> state \<Rightarrow> (thrown + TranscribeResponse) \<times> state" where
  "waitForJob_loop net jobId interval maxAttempts i st =
     (if i < maxAttempts then
        (case getJob net jobId None st of
           (Inl e, st1) \<Rightarrow> (Inl e, st1)
         | (Inr result, st1) \<Rightarrow>
             if TranscribeResponse.status result = Completed
                \<or> TranscribeResponse.status result = Failed
             then (Inr result, st1)
             else waitForJob_loop net jobId interval maxAttempts (i + 1) (sleep interval st1))
      else
        (Inl (Untyped (new_Error (''Job '' @ jobId @ '' did not complete after ''
            @ string_of_int maxAttempts @ '' attempts''))), st))"
  by pat_completeness auto
termination
  by (relation "measure (\<lambda>(net, jobId, interval, maxAttempts, i, st). nat (maxAttempts - i))") auto

function waitForBatch_loop ::
  "network \<Rightarrow> string \<Rightarrow> int \<Rightarrow> int \<Rightarrow> int \<Rightarrow> state \<Rightarrow> (thrown + BatchResponse) \<times> state" where
  "waitForBatch_loop net batchId interval maxAttempts i st =
     (if i < maxAttempts then
        (case getBatch net batchId st of
           (Inl e, st1) \<Rightarrow> (Inl e, st1)
         | (Inr result, st1) \<Rightarrow>
             if BatchResponse.status result = Batch_completed
             then (Inr result, st1)
             else waitForBatch_loop net batchId interval maxAttempts (i + 1) (sleep interval st1))
      else
        (Inl (Untyped (new_Error (''Batch '' @ batchId @ '' did not complete after ''
            @ string_of_int maxAttempts @ '' attempts''))), st))"
  by pat_completeness auto
termination
  by (relation "measure (\<lambda>(net, batchId, interval, maxAttempts, i, st). nat (maxAttempts - i))") auto

declare waitForJob_loop.simps [simp del]
declare waitForBatch_loop.simps [simp del]

record PollOptions =
  interval :: "int option"
  maxAttempts :: "int option"

definition option_of :: "PollOptions option \<Rightarrow> (PollOptions \<Rightarrow> int option) \<Rightarrow> int option" where
  "option_of options f = (case options of None \<Rightarrow> None | Some opts \<Rightarrow> f opts)"

definition waitForJob ::
  "network \<Rightarrow> string \<Rightarrow> PollOptions option \<Rightarrow> state \<Rightarrow> (thrown + TranscribeResponse) \<times> state" where
  "waitForJob net jobId options st =
     (let interval' = or_number (option_of options interval) 5000;
          maxAttempts' = or_number (option_of options maxAttempts) 60
      in waitForJob_loop net jobId interval' maxAttempts' 0 st)"

definition waitForBatch ::
  "network \<Rightarrow> string \<Rightarrow> PollOptions option \<Rightarrow> state \<Rightarrow> (thrown + BatchResponse) \<times> state" where
  "waitForBatch net batchId options st =
     (let interval' = or_number (option_of options interval) 5000;
          maxAttempts' = or_number (option_of options maxAttempts) 60
      in waitForBatch_loop net batchId interval' maxAttempts' 0 st)"

section \<open>Notions used in the properties\<close>

text \<open>
  A valid integer \<open>Retry-After\<close> value (delay seconds): one or more decimal digits.
\<close>

definition valid_integer :: "string \<Rightarrow> bool" where
  "valid_integer v = (v \<noteq> [] \<and> list_all isDigit v)"

text \<open>A string that begins, after white space and one optional sign, with a decimal digit.\<close>

definition has_leading_integer :: "string \<Rightarrow> bool" where
  "has_leading_integer v =
     (case strip_sign (dropWhile isWhiteSpace v) of [] \<Rightarrow> False | c # r \<Rightarrow> isDigit c)"

text \<open>The document of a \<open>fetch\<close> that resolves with a 2xx status and a JSON body.\<close>

fun ok_document :: "fetch_result \<Rightarrow> document option" where
  "ok_document (Resolved response) =
     (case json response of Inl e \<Rightarrow> None | Inr d \<Rightarrow> if ok response then Some d else None)"
| "ok_document (Rejected e) = None"

text \<open>The terminal statuses of a job: \<open>completed\<close> and \<open>failed\<close>.\<close>

definition job_terminal :: "TranscribeResponse \<Rightarrow> bool" where
  "job_terminal r =
     (TranscribeResponse.status r = Completed \<or> TranscribeResponse.status r = Failed)"

text \<open>
  The \<open>fetch\<close> that \<open>request\<close> performs for a client, as an event of the trace, and the
  trace of \<open>n\<close> polls each followed by the wait.
\<close>

definition fetch_event :: "YouTubeTranscript \<Rightarrow> string \<Rightarrow> string \<Rightarrow> body option \<Rightarrow> event" where
  "fetch_event c meth path b =
     Fetch (YouTubeTranscript.baseUrl c @ path)
       \<lparr> http_method = meth,
         headers = [(''Authorization'', ''Bearer '' @ YouTubeTranscript.apiKey c),
                    (''Content-Type'', ''application/json''),
                    (''User-Agent'', ''youtube-transcript-sdk/1.0.0'')],
         body = b \<rparr>
       (YouTubeTranscript.timeout c)"

definition polls :: "event \<Rightarrow> int \<Rightarrow> nat \<Rightarrow> event list" where
  "polls f d n = concat (replicate n [f, Delay d])"

text \<open>The public operations as data, to run a sequence of invocations on one client.\<close>

datatype operation =
    Transcribe TranscribeRequest
  | GetTranscript string "string option"
  | Batch BatchRequest
  | GetJob string "JobOptions option"
  | GetBatch string
  | WaitForJob string "PollOptions option"
  | WaitForBatch string "PollOptions option"

fun invoke :: "network \<Rightarrow> operation \<Rightarrow> state \<Rightarrow> state" where
  "invoke net (Transcribe r) st = snd (transcribe net r st)"
| "invoke net (GetTranscript v l) st = snd (getTranscript net v l st)"
| "invoke net (Batch r) st = snd (batch net r st)"
| "invoke net (GetJob j opts) st = snd (getJob net j opts st)"
| "invoke net (GetBatch b) st = snd (getBatch net b st)"
| "invoke net (WaitForJob j opts) st = snd (waitForJob net j opts st)"
| "invoke net (WaitForBatch b opts) st = snd (waitForBatch net b opts st)"

fun invoke_all :: "network \<Rightarrow> operation list \<Rightarrow> state \<Rightarrow> state" where
  "invoke_all net [] st = st"
| "invoke_all net (x # xs) st = invoke_all net xs (invoke net x st)"

text \<open>\<open>error instanceof YouTubeTranscriptError\<close>, of a thrown value.\<close>

fun instanceof_YouTubeTranscriptError :: "thrown \<Rightarrow> bool" where
  "instanceof_YouTubeTranscriptError (Typed e) = True"
| "instanceof_YouTubeTranscriptError (Untyped e) = False"

text \<open>Concrete values, for the instances of the properties below.\<close>

definition example_client :: YouTubeTranscript where
  "example_client = \<lparr> apiKey = ''your_api_key'', baseUrl = ''https://x'', timeout = 30000 \<rparr>"

definition example_job :: "TranscribeStatus \<Rightarrow> TranscribeResponse" where
  "example_job s =
     \<lparr> request_id = ''req_1'', status = s, data = None, error = None,
       job_id = Some (Some ''job_abc123''), estimated_credits = None,
       duration_minutes = None, suggestion = None, credits_used = None \<rparr>"

definition example_batch :: "BatchStatus \<Rightarrow> BatchResponse" where
  "example_batch s =
     \<lparr> batch_id = ''batch_abc123'', status = s,
       results = [example_job Failed, example_job Completed],
       summary = None, credits_used = None \<rparr>"

definition example_document :: "TranscribeStatus \<Rightarrow> BatchStatus \<Rightarrow> document" where
  "example_document s b =
     \<lparr> as_TranscribeResponse = example_job s,
       as_BatchResponse = example_batch b,
       as_ErrorResponse = \<lparr> error = ''internal_error'', message = ''Something went wrong'',
                            details = None \<rparr> \<rparr>"

text \<open>A server that answers the \<open>n\<close>-th request with status 200 and the document \<open>docs n\<close>.\<close>

definition served :: "(nat \<Rightarrow> document) \<Rightarrow> network" where
  "served docs n url init =
     Resolved \<lparr> status = 200, headers = [(''Content-Type'', ''application/json'')],
                json = Inr (docs n) \<rparr>"

text \<open>A network on which the abort timer of every request fires.\<close>

definition timing_out :: network where
  "timing_out n url init =
     Rejected \<lparr> name = ''AbortError'', message = ''This operation was aborted'' \<rparr>"

text \<open>A network on which the timer fires while the body of the response is read.\<close>

definition stalled :: network where
  "stalled n url init =
     Resolved \<lparr> status = 200, headers = [(''Content-Type'', ''application/json'')],
                json = Inl \<lparr> name = ''AbortError'',
                             message = ''This operation was aborted'' \<rparr> \<rparr>"

section \<open>Properties\<close>

subsection \<open>The error mapper\<close>

lemmas new_defs =
  new_YouTubeTranscriptError_def new_InvalidRequestError_def new_AuthenticationError_def
  new_InsufficientCreditsError_def new_NoCaptionsError_def new_RateLimitError_def

text \<open>
  C1. For each status among 400, 401, 402, 404 and 429 and every error payload and headers,
  \<open>createError\<close> returns the error of the corresponding class, with the class's name; for
  every other status it returns the generic \<open>YouTubeTranscriptError\<close>; in every case the
  \<open>status\<close> field of the result is the input status.
\<close>

theorem createError_variant:
  "(st = 400 \<longrightarrow> cls (createError st b hs) = InvalidRequestError_class
       \<and> YouTubeTranscriptError.name (createError st b hs) = ''InvalidRequestError'') \<and>
   (st = 401 \<longrightarrow> cls (createError st b hs) = AuthenticationError_class
       \<and> YouTubeTranscriptError.name (createError st b hs) = ''AuthenticationError'') \<and>
   (st = 402 \<longrightarrow> cls (createError st b hs) = InsufficientCreditsError_class
       \<and> YouTubeTranscriptError.name (createError st b hs) = ''InsufficientCreditsError'') \<and>
   (st = 404 \<longrightarrow> cls (createError st b hs) = NoCaptionsError_class
       \<and> YouTubeTranscriptError.name (createError st b hs) = ''NoCaptionsError'') \<and>
   (st = 429 \<longrightarrow> cls (createError st b hs) = RateLimitError_class
       \<and> YouTubeTranscriptError.name (createError st b hs) = ''RateLimitError'') \<and>
   (st \<notin> {400, 401, 402, 404, 429} \<longrightarrow> cls (createError st b hs) = YouTubeTranscriptError_class
       \<and> YouTubeTranscriptError.name (createError st b hs) = ''YouTubeTranscriptError'') \<and>
   YouTubeTranscriptError.status (createError st b hs) = st"
  by (simp add: createError_def new_defs Let_def)

theorem createError_variant_witness:
  "cls (createError 402 \<lparr> error = ''insufficient_credits'', message = ''No credits left'',
                          details = None \<rparr> []) = InsufficientCreditsError_class
   \<and> cls (createError 503 \<lparr> error = ''unavailable'', message = [], details = None \<rparr> [])
       = YouTubeTranscriptError_class
   \<and> YouTubeTranscriptError.status
        (createError 503 \<lparr> error = ''unavailable'', message = [], details = None \<rparr> []) = 503"
  using createError_variant
          [of 402 "\<lparr> error = ''insufficient_credits'', message = ''No credits left'',
                     details = None \<rparr>" "[]"]
        createError_variant
          [of 503 "\<lparr> error = ''unavailable'', message = [], details = None \<rparr>" "[]"]
  by simp

subsection \<open>\<open>Retry-After\<close>\<close>

lemma retryAfter_429:
  "retryAfter (createError 429 b hs) =
     (case headers_get hs ''Retry-After'' of None \<Rightarrow> None
      | Some v \<Rightarrow> if v \<noteq> [] then Some (parseInt v) else None)"
  by (simp add: createError_def new_RateLimitError_def Let_def)

lemma to_double_not_NaN: "to_double n \<noteq> NaN"
  by (simp add: to_double_def Let_def)

lemma to_double_exact: "\<bar>n\<bar> \<le> 2 ^ 53 \<Longrightarrow> to_double n = Num n"
  by (simp add: to_double_def Let_def nat_le_iff)

lemma parseInt_not_NaN_iff: "parseInt v \<noteq> NaN \<longleftrightarrow> has_leading_integer v"
  by (cases "strip_sign (dropWhile isWhiteSpace v)")
     (simp_all add: parseInt_def has_leading_integer_def Let_def to_double_not_NaN)

lemma isDigit_not_space: "isDigit c \<Longrightarrow> \<not> isWhiteSpace c"
  by (auto simp: isDigit_def isWhiteSpace_def)

lemma isDigit_not_sign: "isDigit c \<Longrightarrow> c \<noteq> CHR ''+'' \<and> c \<noteq> CHR ''-''"
  by (auto simp: isDigit_def)

lemma digits_value_snoc:
  "digits_value (ds @ [c]) = 10 * digits_value ds + (int (of_char c) - 48)"
  by (simp add: digits_value_def)

lemma digits_value_nonneg: "list_all isDigit ds \<Longrightarrow> 0 \<le> digits_value ds"
  by (induction ds rule: rev_induct)
     (auto simp: digits_value_snoc isDigit_def, simp add: digits_value_def)

lemma parseInt_valid:
  assumes "valid_integer v"
  shows "parseInt v = to_double (digits_value v)"
proof -
  from assms obtain c r where v: "v = c # r" and c: "isDigit c" and r: "list_all isDigit r"
    by (cases v) (auto simp: valid_integer_def)
  have 1: "dropWhile isWhiteSpace v = v" using v c by (simp add: isDigit_not_space)
  have 2: "strip_sign v = v" using v c isDigit_not_sign[OF c] by (simp add: strip_sign_def)
  have 3: "takeWhile isDigit v = v" using v c r by (simp add: takeWhile_eq_all_conv list_all_iff)
  have 4: "sign_of v = 1" using v isDigit_not_sign[OF c] by (simp add: sign_of_def)
  have 5: "v \<noteq> []" using v by simp
  show ?thesis unfolding parseInt_def Let_def 1 2 3 4 using 5 by simp
qed

lemma digit_char_digit:
  "d < 10 \<Longrightarrow> isDigit (digit_char d) \<and> int (of_char (digit_char d)) - 48 = int d"
  by (simp add: isDigit_def digit_char_def)

lemma string_of_nat_digits:
  "string_of_nat n \<noteq> [] \<and> list_all isDigit (string_of_nat n)
   \<and> digits_value (string_of_nat n) = int n"
proof (induction n rule: string_of_nat.induct)
  case (1 n)
  show ?case
  proof (cases "n < 10")
    case True
    then show ?thesis
      using digit_char_digit[of n] digits_value_snoc[of "[]" "digit_char n"]
      by (simp add: digits_value_def string_of_nat.simps[of n])
  next
    case False
    have d: "n mod 10 < 10" by simp
    from False 1 have ih: "string_of_nat (n div 10) \<noteq> []"
      "list_all isDigit (string_of_nat (n div 10))"
      "digits_value (string_of_nat (n div 10)) = int (n div 10)" by simp_all
    have eq: "string_of_nat n = string_of_nat (n div 10) @ [digit_char (n mod 10)]"
      using False by (subst string_of_nat.simps) simp
    have ar: "10 * int (n div 10) + int (n mod 10) = int n" by presburger
    show ?thesis
      unfolding eq using ih digit_char_digit[OF d] ar
      by (simp add: digits_value_snoc)
  qed
qed

text \<open>Beyond \<open>2^53\<close> the result is rounded: here to the even neighbour.\<close>

lemma parseInt_rounds:
  "parseInt ''9007199254740993'' = Num 9007199254740992"
  by (simp add: parseInt_def isWhiteSpace_def isDigit_def strip_sign_def sign_of_def
        digits_value_def to_double_def bit_length.simps Let_def)

text \<open>Evaluation of the text of a given integer up to \<open>2^53\<close> by the simplifier.\<close>

lemmas string_of_int_eval =
  string_of_int_def to_double_def string_of_magnitude_def Let_def
  string_of_nat.simps digit_char_def char_of_def bit_Suc_0_iff

text \<open>
  C3, as the spec states it, fails: a \<open>Retry-After\<close> header that is not a valid integer does
  not leave \<open>retryAfter\<close> absent. The value \<open>soon\<close> gives \<open>NaN\<close>, and \<open>12abc\<close> gives the
  number 12.
\<close>

theorem retryAfter_invalid_header_counterexample:
  "\<not> valid_integer ''soon''
   \<and> retryAfter (createError 429 \<lparr> error = ''rate_limited'', message = ''Slow down'',
                                   details = None \<rparr> [(''Retry-After'', ''soon'')]) = Some NaN
   \<and> \<not> valid_integer ''12abc''
   \<and> retryAfter (createError 429 \<lparr> error = ''rate_limited'', message = ''Slow down'',
                                   details = None \<rparr> [(''Retry-After'', ''12abc'')]) = Some (Num 12)"
  by (simp add: valid_integer_def isDigit_def createError_def new_defs headers_get_def
        normalize_value_def isHttpWhiteSpace_def lower_char_def parseInt_def isWhiteSpace_def
        strip_sign_def sign_of_def digits_value_def to_double_def Let_def)

text \<open>
  C3, amended. On a 429 response \<open>retryAfter\<close> is absent when the \<open>Retry-After\<close> header is
  absent or empty. It is present and a number other than \<open>NaN\<close> exactly when the header
  begins, after white space and an optional sign, with a decimal digit, and it is then
  \<open>parseInt(header, 10)\<close>. For a header that is a valid integer that is the double nearest
  to the integer: the integer itself up to \<open>2^53\<close>, so that the decimal text of such an
  \<open>n\<close> gives \<open>n\<close>.
\<close>

theorem retryAfter_from_header:
  "(headers_get hs ''Retry-After'' = None \<or> headers_get hs ''Retry-After'' = Some []
      \<longrightarrow> retryAfter (createError 429 b hs) = None) \<and>
   ((\<exists>x. retryAfter (createError 429 b hs) = Some x \<and> x \<noteq> NaN) \<longleftrightarrow>
      (\<exists>v. headers_get hs ''Retry-After'' = Some v \<and> has_leading_integer v)) \<and>
   (\<forall>v. headers_get hs ''Retry-After'' = Some v \<and> has_leading_integer v \<longrightarrow>
      retryAfter (createError 429 b hs) = Some (parseInt v)) \<and>
   (\<forall>v. headers_get hs ''Retry-After'' = Some v \<and> valid_integer v \<longrightarrow>
      0 \<le> digits_value v
      \<and> retryAfter (createError 429 b hs) = Some (to_double (digits_value v))) \<and>
   (\<forall>v. headers_get hs ''Retry-After'' = Some v \<and> valid_integer v
        \<and> digits_value v \<le> 2 ^ 53 \<longrightarrow>
      retryAfter (createError 429 b hs) = Some (Num (digits_value v))) \<and>
   (\<forall>n\<le>2 ^ 53. headers_get hs ''Retry-After'' = Some (string_of_nat n) \<longrightarrow>
      retryAfter (createError 429 b hs) = Some (Num (int n)))"
proof -
  have e: "has_leading_integer [] = False"
    by (simp add: has_leading_integer_def strip_sign_def)
  have A: "headers_get hs ''Retry-After'' = None \<or> headers_get hs ''Retry-After'' = Some []
      \<longrightarrow> retryAfter (createError 429 b hs) = None"
    by (auto simp: retryAfter_429)
  have B: "(\<exists>x. retryAfter (createError 429 b hs) = Some x \<and> x \<noteq> NaN) \<longleftrightarrow>
      (\<exists>v. headers_get hs ''Retry-After'' = Some v \<and> has_leading_integer v)"
    using parseInt_not_NaN_iff e by (auto simp: retryAfter_429 split: option.splits)
  have C: "retryAfter (createError 429 b hs) = Some (parseInt v)"
    if "headers_get hs ''Retry-After'' = Some v \<and> has_leading_integer v" for v
    using that e by (auto simp: retryAfter_429)
  have D: "0 \<le> digits_value v
      \<and> retryAfter (createError 429 b hs) = Some (to_double (digits_value v))"
    if a: "headers_get hs ''Retry-After'' = Some v \<and> valid_integer v" for v
  proof -
    from a have "v \<noteq> []" by (simp add: valid_integer_def)
    with a have "retryAfter (createError 429 b hs) = Some (to_double (digits_value v))"
      by (simp add: retryAfter_429 parseInt_valid)
    moreover have "0 \<le> digits_value v"
      using a by (simp add: valid_integer_def digits_value_nonneg)
    ultimately show ?thesis by simp
  qed
  have E: "retryAfter (createError 429 b hs) = Some (Num (digits_value v))"
    if a: "headers_get hs ''Retry-After'' = Some v \<and> valid_integer v
        \<and> digits_value v \<le> 2 ^ 53" for v
  proof -
    have "\<bar>digits_value v\<bar> \<le> 2 ^ 53" using a D[of v] by simp
    then show ?thesis using a D[of v] by (simp add: to_double_exact)
  qed
  have F: "retryAfter (createError 429 b hs) = Some (Num (int n))"
    if n: "n \<le> 2 ^ 53" and a: "headers_get hs ''Retry-After'' = Some (string_of_nat n)" for n
  proof -
    have v: "valid_integer (string_of_nat n)"
      using string_of_nat_digits[of n] by (simp add: valid_integer_def)
    have "int n \<le> int (2 ^ 53)" using n by (simp only: of_nat_le_iff)
    then have "int n \<le> 2 ^ 53" by simp
    then show ?thesis
      using E[of "string_of_nat n"] a v string_of_nat_digits[of n] by simp
  qed
  show ?thesis using A B C D E F by blast
qed

theorem retryAfter_from_header_witness:
  "headers_get [(''retry-after'', '' 120 '')] ''Retry-After'' = Some ''120''
   \<and> valid_integer ''120'' \<and> has_leading_integer ''120''
   \<and> retryAfter (createError 429 \<lparr> error = ''rate_limited'', message = ''Slow down'',
                                   details = None \<rparr> [(''retry-after'', '' 120 '')])
       = Some (Num 120)
   \<and> headers_get [(''Retry-After'', '' '')] ''Retry-After'' = Some []
   \<and> retryAfter (createError 429 \<lparr> error = ''rate_limited'', message = ''Slow down'',
                                   details = None \<rparr> [(''Retry-After'', '' '')]) = None"
proof -
  have h: "headers_get [(''retry-after'', '' 120 '')] ''Retry-After'' = Some ''120''"
    by (simp add: headers_get_def normalize_value_def isHttpWhiteSpace_def lower_char_def
          char_of_def bit_Suc_0_iff)
  have h0: "headers_get [(''Retry-After'', '' '')] ''Retry-After'' = Some []"
    by (simp add: headers_get_def normalize_value_def isHttpWhiteSpace_def lower_char_def)
  have v: "valid_integer ''120''"
    by (simp add: valid_integer_def isDigit_def)
  have l: "has_leading_integer ''120''"
    by (simp add: has_leading_integer_def isWhiteSpace_def isDigit_def strip_sign_def)
  have d: "digits_value ''120'' = 120"
    by (simp add: digits_value_def)
  have "retryAfter (createError 429 \<lparr> error = ''rate_limited'', message = ''Slow down'',
                                   details = None \<rparr> [(''retry-after'', '' 120 '')])
       = Some (Num (digits_value ''120''))"
    using retryAfter_from_header
            [of "[(''retry-after'', '' 120 '')]"
                "\<lparr> error = ''rate_limited'', message = ''Slow down'', details = None \<rparr>"] h v d
    by (simp add: to_double_exact)
  moreover have "retryAfter (createError 429 \<lparr> error = ''rate_limited'', message = ''Slow down'',
                                   details = None \<rparr> [(''Retry-After'', '' '')]) = None"
    using retryAfter_from_header
            [of "[(''Retry-After'', '' '')]"
                "\<lparr> error = ''rate_limited'', message = ''Slow down'', details = None \<rparr>"] h0
    by simp
  ultimately show ?thesis using h h0 v l d by simp
qed

subsection \<open>The transport\<close>

lemma snd_request:
  "snd (request net meth path b st) = st \<lparr> trace := trace st @ [fetch_event (this st) meth path b] \<rparr>"
  by (simp add: request_def fetch_event_def Let_def split: sum.splits thrown.splits)

lemma snd_cast: "snd (cast f r) = snd r"
  by (cases r) (simp add: cast_def split: sum.splits)

lemma fst_cast: "fst (cast f r) = map_sum id f (fst r)"
  by (cases r) (simp add: cast_def split: sum.splits)

lemma fst_request_cases:
  "fst (request net meth path b st) =
     (case net (fetches (trace st)) (YouTubeTranscript.baseUrl (this st) @ path)
             \<lparr> http_method = meth,
               headers = [(''Authorization'', ''Bearer '' @ YouTubeTranscript.apiKey (this st)),
                          (''Content-Type'', ''application/json''),
                          (''User-Agent'', ''youtube-transcript-sdk/1.0.0'')],
               body = b \<rparr> of
        Rejected e \<Rightarrow>
          if Error.name e = ''AbortError''
          then Inl (Untyped (new_Error (''Request to '' @ path @ '' timed out after ''
                    @ string_of_int (YouTubeTranscript.timeout (this st)) @ ''ms'')))
          else Inl (Untyped e)
      | Resolved response \<Rightarrow>
          (case json response of
             Inl e \<Rightarrow>
               if Error.name e = ''AbortError''
               then Inl (Untyped (new_Error (''Request to '' @ path @ '' timed out after ''
                    @ string_of_int (YouTubeTranscript.timeout (this st)) @ ''ms'')))
               else Inl (Untyped e)
           | Inr d \<Rightarrow>
               if ok response then Inr d
               else Inl (Typed (createError (Response.status response) (as_ErrorResponse d)
                                  (Response.headers response)))))"
  by (simp add: request_def Let_def split: fetch_result.splits sum.splits)

lemma fst_request_ok_document:
  "(\<exists>d. fst (request net meth path b st) = Inr d) \<longleftrightarrow>
     ok_document (net (fetches (trace st)) (YouTubeTranscript.baseUrl (this st) @ path)
             \<lparr> http_method = meth,
               headers = [(''Authorization'', ''Bearer '' @ YouTubeTranscript.apiKey (this st)),
                          (''Content-Type'', ''application/json''),
                          (''User-Agent'', ''youtube-transcript-sdk/1.0.0'')],
               body = b \<rparr>) \<noteq> None"
  unfolding fst_request_cases
  by (auto split: fetch_result.splits sum.splits if_splits)

lemma fst_request_ok:
  assumes "\<And>url init. ok_document (net (fetches (trace st)) url init) = Some d"
  shows "fst (request net meth path b st) = Inr d"
  unfolding fst_request_cases using assms[of "YouTubeTranscript.baseUrl (this st) @ path"
             "\<lparr> http_method = meth,
               headers = [(''Authorization'', ''Bearer '' @ YouTubeTranscript.apiKey (this st)),
                          (''Content-Type'', ''application/json''),
                          (''User-Agent'', ''youtube-transcript-sdk/1.0.0'')],
               body = b \<rparr>"]
  by (auto split: fetch_result.splits sum.splits if_splits)

subsection \<open>Construction\<close>

text \<open>
  C5. With a missing or empty \<open>apiKey\<close> the constructor throws, and the trace of effects
  is what it was: nothing has been sent. With a non-empty \<open>apiKey\<close> it returns a client
  holding that key.
\<close>

theorem constructor_requires_apiKey:
  "(YouTubeTranscriptOptions.apiKey opts = None \<or> YouTubeTranscriptOptions.apiKey opts = Some []
      \<longrightarrow> constructor opts tr =
            (Inl (Untyped (new_Error
               ''API key is required. Get one at https://youtubetranscript.dev'')), tr)) \<and>
   (\<forall>k. YouTubeTranscriptOptions.apiKey opts = Some k \<and> k \<noteq> []
      \<longrightarrow> (\<exists>c. constructor opts tr = (Inr c, tr) \<and> YouTubeTranscript.apiKey c = k))"
  by (auto simp: constructor_def)

theorem constructor_requires_apiKey_witness:
  "constructor \<lparr> YouTubeTranscriptOptions.apiKey = Some [], YouTubeTranscriptOptions.baseUrl = None,
       YouTubeTranscriptOptions.timeout = None \<rparr> [] =
     (Inl (Untyped (new_Error
        ''API key is required. Get one at https://youtubetranscript.dev'')), [])
   \<and> (\<exists>c. constructor \<lparr> YouTubeTranscriptOptions.apiKey = Some ''your_api_key'',
       YouTubeTranscriptOptions.baseUrl = None, YouTubeTranscriptOptions.timeout = None \<rparr> []
            = (Inr c, []) \<and> YouTubeTranscript.apiKey c = ''your_api_key'')"
  using constructor_requires_apiKey [of "\<lparr> YouTubeTranscriptOptions.apiKey = Some [], YouTubeTranscriptOptions.baseUrl = None,
       YouTubeTranscriptOptions.timeout = None \<rparr>" "[]"]
        constructor_requires_apiKey
          [of "\<lparr> YouTubeTranscriptOptions.apiKey = Some ''your_api_key'',
       YouTubeTranscriptOptions.baseUrl = None, YouTubeTranscriptOptions.timeout = None \<rparr>" "[]"]
  by simp

lemma strip_trailing_slashes_decomp:
  "s = strip_trailing_slashes s
       @ replicate (length (takeWhile (\<lambda>c. c = CHR ''/'') (rev s))) CHR ''/''"
proof -
  let ?P = "\<lambda>c. c = CHR ''/''"
  have a: "takeWhile ?P (rev s) = replicate (length (takeWhile ?P (rev s))) CHR ''/''"
    by (rule replicate_length_same[symmetric]) (auto dest: set_takeWhileD)
  have "rev s = takeWhile ?P (rev s) @ dropWhile ?P (rev s)" by simp
  then have "s = rev (dropWhile ?P (rev s)) @ rev (takeWhile ?P (rev s))"
    by (metis rev_append rev_rev_ident)
  also have "rev (takeWhile ?P (rev s)) = replicate (length (takeWhile ?P (rev s))) CHR ''/''"
    using a by (metis rev_replicate)
  finally show ?thesis by (simp add: strip_trailing_slashes_def)
qed

lemma strip_trailing_slashes_last:
  "strip_trailing_slashes s = [] \<or> last (strip_trailing_slashes s) \<noteq> CHR ''/''"
proof (cases "dropWhile (\<lambda>c. c = CHR ''/'') (rev s)")
  case Nil
  then show ?thesis by (simp add: strip_trailing_slashes_def)
next
  case (Cons x xs)
  then have "x \<noteq> CHR ''/''" using hd_dropWhile[of "\<lambda>c. c = CHR ''/''" "rev s"] by auto
  then show ?thesis using Cons by (simp add: strip_trailing_slashes_def)
qed

text \<open>
  C7. A custom base URL given to the constructor is kept without its trailing slashes: it is
  the stored base URL followed by slashes only, the stored base URL does not end with a
  slash, and the URL of every request of that client is the stored base URL followed by
  the path.
\<close>

theorem baseUrl_trailing_slashes_stripped:
  assumes "constructor opts tr = (Inr c, tr')"
    and "YouTubeTranscriptOptions.baseUrl opts = Some b" and "b \<noteq> []"
  shows "(\<exists>n. b = YouTubeTranscript.baseUrl c @ replicate n CHR ''/'')
       \<and> (YouTubeTranscript.baseUrl c = [] \<or> last (YouTubeTranscript.baseUrl c) \<noteq> CHR ''/'')
       \<and> (\<forall>net meth path bd st. this st = c \<longrightarrow>
             (\<exists>init tm. trace (snd (request net meth path bd st))
                = trace st @ [Fetch (YouTubeTranscript.baseUrl c @ path) init tm]))"
proof -
  have c: "YouTubeTranscript.baseUrl c = strip_trailing_slashes b"
    using assms by (auto simp: constructor_def or_string_def split: option.splits if_splits)
  show ?thesis
    unfolding c
    using strip_trailing_slashes_decomp[of b] strip_trailing_slashes_last[of b]
    by (auto simp: snd_request fetch_event_def c)
qed

theorem baseUrl_trailing_slashes_stripped_witness:
  "constructor \<lparr> YouTubeTranscriptOptions.apiKey = Some ''your_api_key'',
                 YouTubeTranscriptOptions.baseUrl = Some ''https://x/'',
                 YouTubeTranscriptOptions.timeout = None \<rparr> [] = (Inr example_client, [])
   \<and> (\<exists>init tm. trace (snd (request timing_out ''POST'' ''/transcribe'' None
                                  \<lparr> this = example_client, trace = [] \<rparr>))
          = [Fetch ''https://x/transcribe'' init tm])"
proof -
  have c: "constructor \<lparr> YouTubeTranscriptOptions.apiKey = Some ''your_api_key'',
                 YouTubeTranscriptOptions.baseUrl = Some ''https://x/'',
                 YouTubeTranscriptOptions.timeout = None \<rparr> [] = (Inr example_client, [])"
    by (simp add: constructor_def example_client_def strip_trailing_slashes_def or_string_def
          or_number_def DEFAULT_TIMEOUT_def)
  have b: "YouTubeTranscriptOptions.baseUrl
             \<lparr> YouTubeTranscriptOptions.apiKey = Some ''your_api_key'',
               YouTubeTranscriptOptions.baseUrl = Some ''https://x/'',
               YouTubeTranscriptOptions.timeout = None \<rparr> = Some ''https://x/''"
    by simp
  have u: "YouTubeTranscript.baseUrl example_client @ ''/transcribe'' = ''https://x/transcribe''"
    by (simp add: example_client_def)
  have "\<exists>init tm. trace (snd (request timing_out ''POST'' ''/transcribe'' None
                                  \<lparr> this = example_client, trace = [] \<rparr>))
          = [] @ [Fetch (YouTubeTranscript.baseUrl example_client @ ''/transcribe'') init tm]"
    using baseUrl_trailing_slashes_stripped
            [OF c b, THEN conjunct2, THEN conjunct2, rule_format,
             where st = "\<lparr> this = example_client, trace = [] \<rparr>" and net = timing_out
               and meth = "''POST''" and path = "''/transcribe''" and bd = None]
    by simp
  then show ?thesis using c unfolding u by simp
qed

subsection \<open>Batch requests\<close>

text \<open>
  C8. For every batch request, whatever the length of \<open>video_ids\<close>, \<open>batch\<close> performs one
  \<open>POST\<close> to \<open>/batch\<close> whose body is that request; it returns the server's document
  when the server answers with success, and it fails only when the network or the server
  did not answer with success.
\<close>

theorem batch_passes_request_through:
  "trace (snd (batch net req st)) =
     trace st @ [Fetch (YouTubeTranscript.baseUrl (this st) @ ''/batch'')
                   \<lparr> http_method = ''POST'',
                     headers = [(''Authorization'', ''Bearer '' @ YouTubeTranscript.apiKey (this st)),
                                (''Content-Type'', ''application/json''),
                                (''User-Agent'', ''youtube-transcript-sdk/1.0.0'')],
                     body = Some (BatchBody req) \<rparr>
                   (YouTubeTranscript.timeout (this st))]
   \<and> (\<forall>d. (\<forall>url init. ok_document (net (fetches (trace st)) url init) = Some d)
          \<longrightarrow> fst (batch net req st) = Inr (as_BatchResponse d))
   \<and> (\<forall>e. fst (batch net req st) = Inl e
          \<longrightarrow> (\<exists>url init. ok_document (net (fetches (trace st)) url init) = None))"
proof (intro conjI allI impI)
  show "trace (snd (batch net req st)) =
     trace st @ [Fetch (YouTubeTranscript.baseUrl (this st) @ ''/batch'')
                   \<lparr> http_method = ''POST'',
                     headers = [(''Authorization'', ''Bearer '' @ YouTubeTranscript.apiKey (this st)),
                                (''Content-Type'', ''application/json''),
                                (''User-Agent'', ''youtube-transcript-sdk/1.0.0'')],
                     body = Some (BatchBody req) \<rparr>
                   (YouTubeTranscript.timeout (this st))]"
    by (simp add: batch_def post_def snd_cast snd_request fetch_event_def)
next
  fix d assume "\<forall>url init. ok_document (net (fetches (trace st)) url init) = Some d"
  then have "fst (request net ''POST'' ''/batch'' (Some (BatchBody req)) st) = Inr d"
    by (intro fst_request_ok) simp
  then show "fst (batch net req st) = Inr (as_BatchResponse d)"
    by (simp add: batch_def post_def fst_cast)
next
  fix e assume "fst (batch net req st) = Inl e"
  then have "\<not> (\<exists>d. fst (request net ''POST'' ''/batch'' (Some (BatchBody req)) st) = Inr d)"
    by (auto simp: batch_def post_def fst_cast)
  then show "\<exists>url init. ok_document (net (fetches (trace st)) url init) = None"
    unfolding fst_request_ok_document not_not by (intro exI)
qed

theorem batch_passes_request_through_witness:
  "length (video_ids \<lparr> video_ids = replicate 101 ''dQw4w9WgXcQ'', language = None, source = None,
                allow_asr = None, format = None, webhook_url = None \<rparr>) = 101
   \<and> fst (batch (served (\<lambda>n. example_document Completed Batch_processing))
         \<lparr> video_ids = replicate 101 ''dQw4w9WgXcQ'', language = None, source = None,
                allow_asr = None, format = None, webhook_url = None \<rparr>
         \<lparr> this = example_client, trace = [] \<rparr>)
     = Inr (example_batch Batch_processing)
   \<and> fst (batch (served (\<lambda>n. example_document Completed Batch_completed))
         \<lparr> video_ids = [], language = None, source = None,
                allow_asr = None, format = None, webhook_url = None \<rparr>
         \<lparr> this = example_client, trace = [] \<rparr>)
     = Inr (example_batch Batch_completed)"
proof -
  have ok: "\<And>docs n url init. ok_document (served docs n url init) = Some (docs n)"
    by (simp add: served_def ok_def)
  show ?thesis
    using batch_passes_request_through
            [of "served (\<lambda>n. example_document Completed Batch_processing)"
                "\<lparr> video_ids = replicate 101 ''dQw4w9WgXcQ'', language = None, source = None,
                   allow_asr = None, format = None, webhook_url = None \<rparr>"
                "\<lparr> this = example_client, trace = [] \<rparr>"]
          batch_passes_request_through
            [of "served (\<lambda>n. example_document Completed Batch_completed)"
                "\<lparr> video_ids = [], language = None, source = None,
                   allow_asr = None, format = None, webhook_url = None \<rparr>"
                "\<lparr> this = example_client, trace = [] \<rparr>"]
    by (simp add: ok example_document_def)
qed

subsection \<open>Polling\<close>

lemma fetches_simps:
  "fetches [] = 0"
  "fetches (tr @ tr') = fetches tr + fetches tr'"
  "fetches (Fetch u i t # tr) = Suc (fetches tr)"
  "fetches (fetch_event c m p b # tr) = Suc (fetches tr)"
  "fetches (Delay d # tr) = fetches tr"
  by (simp_all add: fetches_def fetch_event_def)

lemma polls_Suc: "polls f d (Suc n) = f # Delay d # polls f d n"
  by (simp add: polls_def)

lemma polls_0: "polls f d 0 = []"
  by (simp add: polls_def)

lemma fetches_polls: "fetches (polls (fetch_event c m p b) d n) = n"
  by (induction n) (simp_all add: polls_Suc polls_0 fetches_simps)

lemma cast_request:
  "cast f (request net meth path b st) =
     (map_sum id f (fst (request net meth path b st)),
      st \<lparr> trace := trace st @ [fetch_event (this st) meth path b] \<rparr>)"
  by (rule prod_eqI) (simp_all add: fst_cast snd_cast snd_request)

lemma getJob_path:
  "getJob net jobId None st =
     cast as_TranscribeResponse (request net ''GET'' (''/jobs/'' @ jobId) None st)"
  by (simp add: getJob_def get_def flag_def Let_def)

lemma fst_request_Some:
  assumes "ok_document (net (fetches (trace st)) (YouTubeTranscript.baseUrl (this st) @ path)
             \<lparr> http_method = meth,
               headers = [(''Authorization'', ''Bearer '' @ YouTubeTranscript.apiKey (this st)),
                          (''Content-Type'', ''application/json''),
                          (''User-Agent'', ''youtube-transcript-sdk/1.0.0'')],
               body = b \<rparr>) = Some d"
  shows "fst (request net meth path b st) = Inr d"
  using assms unfolding fst_request_cases
  by (auto split: fetch_result.splits sum.splits if_splits)

lemma cast_request_ok:
  assumes "\<And>url init. map_option f (ok_document (net (fetches (trace st)) url init)) = Some r"
  shows "cast f (request net meth path b st) =
           (Inr r, st \<lparr> trace := trace st @ [fetch_event (this st) meth path b] \<rparr>)"
proof -
  let ?u = "YouTubeTranscript.baseUrl (this st) @ path"
  let ?i = "\<lparr> http_method = meth,
               headers = [(''Authorization'', ''Bearer '' @ YouTubeTranscript.apiKey (this st)),
                          (''Content-Type'', ''application/json''),
                          (''User-Agent'', ''youtube-transcript-sdk/1.0.0'')],
               body = b \<rparr>"
  from assms[of ?u ?i] obtain d where d: "ok_document (net (fetches (trace st)) ?u ?i) = Some d"
    and r: "f d = r" by auto
  have "fst (request net meth path b st) = Inr d"
    by (rule fst_request_Some) (rule d)
  then show ?thesis by (simp add: cast_request r)
qed

lemma getJob_ok:
  assumes "\<And>url init. map_option as_TranscribeResponse
             (ok_document (net (fetches (trace st)) url init)) = Some r"
  shows "getJob net jobId None st =
           (Inr r, st \<lparr> trace := trace st @ [fetch_event (this st) ''GET'' (''/jobs/'' @ jobId) None] \<rparr>)"
  unfolding getJob_path by (rule cast_request_ok) (rule assms)

lemma getBatch_ok:
  assumes "\<And>url init. map_option as_BatchResponse
             (ok_document (net (fetches (trace st)) url init)) = Some r"
  shows "getBatch net batchId st =
           (Inr r, st \<lparr> trace := trace st @ [fetch_event (this st) ''GET'' (''/batch/'' @ batchId) None] \<rparr>)"
  unfolding getBatch_def get_def by (rule cast_request_ok) (rule assms)

lemma waitForJob_loop_returns:
  assumes "\<And>j url init. j \<le> k \<Longrightarrow> map_option as_TranscribeResponse
             (ok_document (net (fetches (trace st) + j) url init)) = Some (rs j)"
    and "\<forall>j<k. \<not> job_terminal (rs j)"
    and "job_terminal (rs k)"
    and "i + int k < m"
  shows "waitForJob_loop net jobId d m i st =
           (Inr (rs k),
            st \<lparr> trace := trace st
                   @ polls (fetch_event (this st) ''GET'' (''/jobs/'' @ jobId) None) d k
                   @ [fetch_event (this st) ''GET'' (''/jobs/'' @ jobId) None] \<rparr>)"
  using assms
proof (induction k arbitrary: i st rs)
  case 0
  have g: "getJob net jobId None st =
      (Inr (rs 0), st \<lparr> trace := trace st @ [fetch_event (this st) ''GET'' (''/jobs/'' @ jobId) None] \<rparr>)"
    by (rule getJob_ok) (use "0.prems"(1)[of 0] in simp)
  have "i < m" using "0.prems"(4) by simp
  then show ?case using g "0.prems"(3)
    by (subst waitForJob_loop.simps) (simp add: job_terminal_def polls_0)
next
  case (Suc k)
  let ?f = "fetch_event (this st) ''GET'' (''/jobs/'' @ jobId) None"
  let ?st1 = "st \<lparr> trace := trace st @ [?f] \<rparr>"
  let ?st2 = "sleep d ?st1"
  have g: "getJob net jobId None st = (Inr (rs 0), ?st1)"
    by (rule getJob_ok) (use Suc.prems(1)[of 0] in simp)
  have nt: "\<not> job_terminal (rs 0)" using Suc.prems(2) by simp
  have lt: "i < m" using Suc.prems(4) by simp
  have f2: "fetches (trace ?st2) = Suc (fetches (trace st))"
    by (simp add: sleep_def fetches_simps)
  have t2: "this ?st2 = this st" by (simp add: sleep_def)
  have p1: "\<And>j url init. j \<le> k \<Longrightarrow> map_option as_TranscribeResponse
             (ok_document (net (fetches (trace ?st2) + j) url init)) = Some (rs (Suc j))"
    using Suc.prems(1)[of "Suc _"] f2 by simp
  have p2: "\<forall>j<k. \<not> job_terminal (rs (Suc j))"
    using Suc.prems(2) by auto
  have p4: "i + 1 + int k < m" using Suc.prems(4) by simp
  have ih: "waitForJob_loop net jobId d m (i + 1) ?st2 =
      (Inr (rs (Suc k)),
       ?st2 \<lparr> trace := trace ?st2 @ polls ?f d k @ [?f] \<rparr>)"
    using Suc.IH[of ?st2 "\<lambda>j. rs (Suc j)" "i + 1", OF p1 p2 Suc.prems(3) p4] t2 by simp
  have "waitForJob_loop net jobId d m i st = waitForJob_loop net jobId d m (i + 1) ?st2"
    using g nt lt by (subst waitForJob_loop.simps) (simp add: job_terminal_def)
  then show ?case using ih by (simp add: polls_Suc sleep_def)
qed

lemma waitForJob_loop_exhausts:
  assumes "\<And>j url init. int j < m - i \<Longrightarrow> map_option as_TranscribeResponse
             (ok_document (net (fetches (trace st) + j) url init)) = Some (rs j)"
    and "\<forall>j. int j < m - i \<longrightarrow> \<not> job_terminal (rs j)"
    and "n = nat (m - i)"
  shows "waitForJob_loop net jobId d m i st =
           (Inl (Untyped (new_Error (''Job '' @ jobId @ '' did not complete after ''
              @ string_of_int m @ '' attempts''))),
            st \<lparr> trace := trace st
                   @ polls (fetch_event (this st) ''GET'' (''/jobs/'' @ jobId) None) d n \<rparr>)"
  using assms
proof (induction n arbitrary: i st rs)
  case 0
  then have "\<not> i < m" by simp
  then show ?case by (subst waitForJob_loop.simps) (simp add: polls_0)
next
  case (Suc n)
  let ?f = "fetch_event (this st) ''GET'' (''/jobs/'' @ jobId) None"
  let ?st1 = "st \<lparr> trace := trace st @ [?f] \<rparr>"
  let ?st2 = "sleep d ?st1"
  have lt: "i < m" using Suc.prems(3) by simp
  have g: "getJob net jobId None st = (Inr (rs 0), ?st1)"
    by (rule getJob_ok) (use Suc.prems(1)[of 0] lt in simp)
  have nt: "\<not> job_terminal (rs 0)" using Suc.prems(2) lt by simp
  have f2: "fetches (trace ?st2) = Suc (fetches (trace st))"
    by (simp add: sleep_def fetches_simps)
  have t2: "this ?st2 = this st" by (simp add: sleep_def)
  have n: "n = nat (m - (i + 1))" using Suc.prems(3) by simp
  have p1: "\<And>j url init. int j < m - (i + 1) \<Longrightarrow> map_option as_TranscribeResponse
             (ok_document (net (fetches (trace ?st2) + j) url init)) = Some (rs (Suc j))"
    using Suc.prems(1)[of "Suc _"] f2 by simp
  have p2: "\<forall>j. int j < m - (i + 1) \<longrightarrow> \<not> job_terminal (rs (Suc j))"
    using Suc.prems(2) by auto
  have ih: "waitForJob_loop net jobId d m (i + 1) ?st2 =
      (Inl (Untyped (new_Error (''Job '' @ jobId @ '' did not complete after ''
              @ string_of_int m @ '' attempts''))),
       ?st2 \<lparr> trace := trace ?st2 @ polls ?f d n \<rparr>)"
    using Suc.IH[of "i + 1" ?st2 "\<lambda>j. rs (Suc j)", OF p1 p2 n] t2 by simp
  have "waitForJob_loop net jobId d m i st = waitForJob_loop net jobId d m (i + 1) ?st2"
    using g nt lt by (subst waitForJob_loop.simps) (simp add: job_terminal_def)
  then show ?case using ih by (simp add: polls_Suc sleep_def)
qed


lemma waitForBatch_loop_returns:
  assumes "\<And>j url init. j \<le> k \<Longrightarrow> map_option as_BatchResponse
             (ok_document (net (fetches (trace st) + j) url init)) = Some (rs j)"
    and "\<forall>j<k. BatchResponse.status (rs j) \<noteq> Batch_completed"
    and "BatchResponse.status (rs k) = Batch_completed"
    and "i + int k < m"
  shows "waitForBatch_loop net batchId d m i st =
           (Inr (rs k),
            st \<lparr> trace := trace st
                   @ polls (fetch_event (this st) ''GET'' (''/batch/'' @ batchId) None) d k
                   @ [fetch_event (this st) ''GET'' (''/batch/'' @ batchId) None] \<rparr>)"
  using assms
proof (induction k arbitrary: i st rs)
  case 0
  have g: "getBatch net batchId st =
      (Inr (rs 0), st \<lparr> trace := trace st @ [fetch_event (this st) ''GET'' (''/batch/'' @ batchId) None] \<rparr>)"
    by (rule getBatch_ok) (use "0.prems"(1)[of 0] in simp)
  have "i < m" using "0.prems"(4) by simp
  then show ?case using g "0.prems"(3)
    by (subst waitForBatch_loop.simps) (simp add: polls_0)
next
  case (Suc k)
  let ?f = "fetch_event (this st) ''GET'' (''/batch/'' @ batchId) None"
  let ?st1 = "st \<lparr> trace := trace st @ [?f] \<rparr>"
  let ?st2 = "sleep d ?st1"
  have g: "getBatch net batchId st = (Inr (rs 0), ?st1)"
    by (rule getBatch_ok) (use Suc.prems(1)[of 0] in simp)
  have nt: "BatchResponse.status (rs 0) \<noteq> Batch_completed" using Suc.prems(2) by simp
  have lt: "i < m" using Suc.prems(4) by simp
  have f2: "fetches (trace ?st2) = Suc (fetches (trace st))"
    by (simp add: sleep_def fetches_simps)
  have t2: "this ?st2 = this st" by (simp add: sleep_def)
  have p1: "\<And>j url init. j \<le> k \<Longrightarrow> map_option as_BatchResponse
             (ok_document (net (fetches (trace ?st2) + j) url init)) = Some (rs (Suc j))"
    using Suc.prems(1)[of "Suc _"] f2 by simp
  have p2: "\<forall>j<k. BatchResponse.status (rs (Suc j)) \<noteq> Batch_completed"
    using Suc.prems(2) by auto
  have p4: "i + 1 + int k < m" using Suc.prems(4) by simp
  have ih: "waitForBatch_loop net batchId d m (i + 1) ?st2 =
      (Inr (rs (Suc k)),
       ?st2 \<lparr> trace := trace ?st2 @ polls ?f d k @ [?f] \<rparr>)"
    using Suc.IH[of ?st2 "\<lambda>j. rs (Suc j)" "i + 1", OF p1 p2 Suc.prems(3) p4] t2 by simp
  have "waitForBatch_loop net batchId d m i st = waitForBatch_loop net batchId d m (i + 1) ?st2"
    using g nt lt by (subst waitForBatch_loop.simps) simp
  then show ?case using ih by (simp add: polls_Suc sleep_def)
qed

lemma waitForBatch_loop_exhausts:
  assumes "\<And>j url init. int j < m - i \<Longrightarrow> map_option as_BatchResponse
             (ok_document (net (fetches (trace st) + j) url init)) = Some (rs j)"
    and "\<forall>j. int j < m - i \<longrightarrow> BatchResponse.status (rs j) \<noteq> Batch_completed"
    and "n = nat (m - i)"
  shows "waitForBatch_loop net batchId d m i st =
           (Inl (Untyped (new_Error (''Batch '' @ batchId @ '' did not complete after ''
              @ string_of_int m @ '' attempts''))),
            st \<lparr> trace := trace st
                   @ polls (fetch_event (this st) ''GET'' (''/batch/'' @ batchId) None) d n \<rparr>)"
  using assms
proof (induction n arbitrary: i st rs)
  case 0
  then have "\<not> i < m" by simp
  then show ?case by (subst waitForBatch_loop.simps) (simp add: polls_0)
next
  case (Suc n)
  let ?f = "fetch_event (this st) ''GET'' (''/batch/'' @ batchId) None"
  let ?st1 = "st \<lparr> trace := trace st @ [?f] \<rparr>"
  let ?st2 = "sleep d ?st1"
  have lt: "i < m" using Suc.prems(3) by simp
  have g: "getBatch net batchId st = (Inr (rs 0), ?st1)"
    by (rule getBatch_ok) (use Suc.prems(1)[of 0] lt in simp)
  have nt: "BatchResponse.status (rs 0) \<noteq> Batch_completed" using Suc.prems(2) lt by simp
  have f2: "fetches (trace ?st2) = Suc (fetches (trace st))"
    by (simp add: sleep_def fetches_simps)
  have t2: "this ?st2 = this st" by (simp add: sleep_def)
  have n: "n = nat (m - (i + 1))" using Suc.prems(3) by simp
  have p1: "\<And>j url init. int j < m - (i + 1) \<Longrightarrow> map_option as_BatchResponse
             (ok_document (net (fetches (trace ?st2) + j) url init)) = Some (rs (Suc j))"
    using Suc.prems(1)[of "Suc _"] f2 by simp
  have p2: "\<forall>j. int j < m - (i + 1) \<longrightarrow> BatchResponse.status (rs (Suc j)) \<noteq> Batch_completed"
    using Suc.prems(2) by auto
  have ih: "waitForBatch_loop net batchId d m (i + 1) ?st2 =
      (Inl (Untyped (new_Error (''Batch '' @ batchId @ '' did not complete after ''
              @ string_of_int m @ '' attempts''))),
       ?st2 \<lparr> trace := trace ?st2 @ polls ?f d n \<rparr>)"
    using Suc.IH[of "i + 1" ?st2 "\<lambda>j. rs (Suc j)", OF p1 p2 n] t2 by simp
  have "waitForBatch_loop net batchId d m i st = waitForBatch_loop net batchId d m (i + 1) ?st2"
    using g nt lt by (subst waitForBatch_loop.simps) simp
  then show ?case using ih by (simp add: polls_Suc sleep_def)
qed

text \<open>
  C2. Let the server answer the polls of \<open>waitForJob\<close> with the responses \<open>rs 0\<close>, \<open>rs 1\<close>,
  ... and let \<open>m\<close> be \<open>maxAttempts\<close> (the option, or 60). If \<open>rs k\<close> is the first response
  with status \<open>completed\<close> or \<open>failed\<close> and \<open>k < m\<close>, then \<open>waitForJob\<close> returns \<open>rs k\<close>
  and has performed exactly \<open>k + 1\<close> requests: none after the terminal one. If none of the
  first \<open>m\<close> responses is terminal, it throws the error of polling exhaustion, having
  performed exactly \<open>m\<close> requests (\<open>nat m\<close> is \<open>m\<close> itself for a number of attempts).
\<close>

theorem waitForJob_first_terminal:
  assumes polled: "\<And>j url init. map_option as_TranscribeResponse
             (ok_document (net (fetches (trace st) + j) url init)) = Some (rs j)"
    and m: "m = or_number (option_of options maxAttempts) 60"
  shows "(\<forall>k. int k < m \<and> job_terminal (rs k) \<and> (\<forall>j<k. \<not> job_terminal (rs j)) \<longrightarrow>
            fst (waitForJob net jobId options st) = Inr (rs k)
            \<and> fetches (trace (snd (waitForJob net jobId options st))) = fetches (trace st) + k + 1)
       \<and> ((\<forall>j. int j < m \<longrightarrow> \<not> job_terminal (rs j)) \<longrightarrow>
            fst (waitForJob net jobId options st) =
              Inl (Untyped (new_Error (''Job '' @ jobId @ '' did not complete after ''
                     @ string_of_int m @ '' attempts'')))
            \<and> fetches (trace (snd (waitForJob net jobId options st))) = fetches (trace st) + nat m)"
proof -
  have A: "fst (waitForJob net jobId options st) = Inr (rs k)
            \<and> fetches (trace (snd (waitForJob net jobId options st))) = fetches (trace st) + k + 1"
    if k: "int k < m \<and> job_terminal (rs k) \<and> (\<forall>j<k. \<not> job_terminal (rs j))" for k
  proof -
  have "waitForJob net jobId options st =
          (Inr (rs k),
           st \<lparr> trace := trace st
                  @ polls (fetch_event (this st) ''GET'' (''/jobs/'' @ jobId) None)
                      (or_number (option_of options interval) 5000) k
                  @ [fetch_event (this st) ''GET'' (''/jobs/'' @ jobId) None] \<rparr>)"
    unfolding waitForJob_def Let_def m[symmetric]
    by (rule waitForJob_loop_returns) (use k polled in simp_all)
  then show ?thesis
    by (simp add: fetches_simps fetches_polls)
  qed
  have B: "fst (waitForJob net jobId options st) =
              Inl (Untyped (new_Error (''Job '' @ jobId @ '' did not complete after ''
                     @ string_of_int m @ '' attempts'')))
            \<and> fetches (trace (snd (waitForJob net jobId options st))) = fetches (trace st) + nat m"
    if a: "\<forall>j. int j < m \<longrightarrow> \<not> job_terminal (rs j)"
  proof -
  have "waitForJob net jobId options st =
          (Inl (Untyped (new_Error (''Job '' @ jobId @ '' did not complete after ''
                     @ string_of_int m @ '' attempts''))),
           st \<lparr> trace := trace st
                  @ polls (fetch_event (this st) ''GET'' (''/jobs/'' @ jobId) None)
                      (or_number (option_of options interval) 5000) (nat m) \<rparr>)"
    unfolding waitForJob_def Let_def m[symmetric]
    by (rule waitForJob_loop_exhausts[where rs = rs]) (use a polled in simp_all)
  then show ?thesis
    by (simp add: fetches_simps fetches_polls)
  qed
  show ?thesis using A B by blast
qed

theorem waitForJob_first_terminal_witness:
  "fst (waitForJob
          (served (\<lambda>n. example_document (if n < 2 then Processing else Failed) Batch_partial))
          ''job_abc123'' (Some \<lparr> interval = Some 1000, maxAttempts = Some 5 \<rparr>)
          \<lparr> this = example_client, trace = [] \<rparr>) = Inr (example_job Failed)
   \<and> fetches (trace (snd (waitForJob
          (served (\<lambda>n. example_document (if n < 2 then Processing else Failed) Batch_partial))
          ''job_abc123'' (Some \<lparr> interval = Some 1000, maxAttempts = Some 5 \<rparr>)
          \<lparr> this = example_client, trace = [] \<rparr>))) = 3
   \<and> fst (waitForJob
          (served (\<lambda>n. example_document (if n < 2 then Processing else Failed) Batch_partial))
          ''job_abc123'' (Some \<lparr> interval = Some 1000, maxAttempts = Some 2 \<rparr>)
          \<lparr> this = example_client, trace = [] \<rparr>)
       = Inl (Untyped (new_Error (''Job job_abc123 did not complete after ''
                @ string_of_int 2 @ '' attempts'')))
   \<and> fetches (trace (snd (waitForJob
          (served (\<lambda>n. example_document (if n < 2 then Processing else Failed) Batch_partial))
          ''job_abc123'' (Some \<lparr> interval = Some 1000, maxAttempts = Some 2 \<rparr>)
          \<lparr> this = example_client, trace = [] \<rparr>))) = 2"
proof -
  let ?net = "served (\<lambda>n. example_document (if n < 2 then Processing else Failed) Batch_partial)"
  let ?rs = "\<lambda>j::nat. example_job (if j < 2 then Processing else Failed)"
  let ?st = "\<lparr> this = example_client, trace = [] \<rparr>"
  have p: "\<And>j url init. map_option as_TranscribeResponse
             (ok_document (?net (fetches (trace ?st) + j) url init)) = Some (?rs j)"
    by (simp add: served_def ok_def example_document_def fetches_def)
  have m5: "(5::int) = or_number (option_of (Some \<lparr> interval = Some 1000, maxAttempts = Some 5 \<rparr>) maxAttempts) 60"
    by (simp add: or_number_def option_of_def)
  have m2: "(2::int) = or_number (option_of (Some \<lparr> interval = Some 1000, maxAttempts = Some 2 \<rparr>) maxAttempts) 60"
    by (simp add: or_number_def option_of_def)
  have a: "int 2 < 5 \<and> job_terminal (?rs 2) \<and> (\<forall>j<2. \<not> job_terminal (?rs j))"
    by (simp add: job_terminal_def example_job_def)
  have b: "\<forall>j. int j < 2 \<longrightarrow> \<not> job_terminal (?rs j)"
    by (simp add: job_terminal_def example_job_def)
  show ?thesis
    using waitForJob_first_terminal [where rs = ?rs and jobId = "''job_abc123''", OF p m5,
            THEN conjunct1, rule_format, OF a]
          waitForJob_first_terminal [where rs = ?rs and jobId = "''job_abc123''", OF p m2,
            THEN conjunct2, THEN mp, OF b]
    by (simp add: fetches_def)
qed

lemma waitForBatch_loop_completed:
  "fst (waitForBatch_loop net batchId d m i st) = Inr r \<Longrightarrow> BatchResponse.status r = Batch_completed"
proof (induction net batchId d m i st rule: waitForBatch_loop.induct)
  case (1 net batchId interval maxAttempts i st)
  show ?case
  proof (cases "i < maxAttempts")
    case False
    then show ?thesis using "1.prems" by (subst (asm) waitForBatch_loop.simps) simp
  next
    case True
    obtain x st1 where g: "getBatch net batchId st = (x, st1)" by (cases "getBatch net batchId st")
    show ?thesis
    proof (cases x)
      case (Inl e)
      then show ?thesis using "1.prems" True g by (subst (asm) waitForBatch_loop.simps) simp
    next
      case (Inr result)
      show ?thesis
      proof (cases "BatchResponse.status result = Batch_completed")
        case c: True
        then show ?thesis using "1.prems" True g Inr by (subst (asm) waitForBatch_loop.simps) auto
      next
        case c: False
        have "fst (waitForBatch_loop net batchId interval maxAttempts (i + 1) (sleep interval st1)) = Inr r"
          using "1.prems" True g Inr c by (subst (asm) waitForBatch_loop.simps) simp
        then show ?thesis by (rule "1.IH"[OF True g[symmetric] Inr c])
      qed
    qed
  qed
qed

text \<open>
  C4. Let the server answer the polls of \<open>waitForBatch\<close> with the batch responses \<open>rs 0\<close>,
  \<open>rs 1\<close>, ..., whatever the per-video results they carry. \<open>waitForBatch\<close> polls again
  after every response with status \<open>partial\<close> or \<open>processing\<close>: it returns the first
  response with status \<open>completed\<close>, after \<open>k + 1\<close> requests if that is \<open>rs k\<close>, and throws
  after \<open>maxAttempts\<close> requests when there is none among them. On any network, a response
  that \<open>waitForBatch\<close> returns has status \<open>completed\<close>.
\<close>

theorem waitForBatch_only_completed:
  assumes polled: "\<And>j url init. map_option as_BatchResponse
             (ok_document (net (fetches (trace st) + j) url init)) = Some (rs j)"
    and m: "m = or_number (option_of options maxAttempts) 60"
  shows "(\<forall>k. int k < m \<and> BatchResponse.status (rs k) = Batch_completed \<and> (\<forall>j<k. BatchResponse.status (rs j) \<in> {Batch_partial, Batch_processing}) \<longrightarrow>
            fst (waitForBatch net batchId options st) = Inr (rs k)
            \<and> fetches (trace (snd (waitForBatch net batchId options st))) = fetches (trace st) + k + 1)
       \<and> ((\<forall>j. int j < m \<longrightarrow> BatchResponse.status (rs j) \<in> {Batch_partial, Batch_processing}) \<longrightarrow>
            fst (waitForBatch net batchId options st) =
              Inl (Untyped (new_Error (''Batch '' @ batchId @ '' did not complete after ''
                     @ string_of_int m @ '' attempts'')))
            \<and> fetches (trace (snd (waitForBatch net batchId options st))) = fetches (trace st) + nat m)
       \<and> (\<forall>r. fst (waitForBatch net batchId options st) = Inr r
              \<longrightarrow> BatchResponse.status r = Batch_completed)"
proof -
  have A: "fst (waitForBatch net batchId options st) = Inr (rs k)
            \<and> fetches (trace (snd (waitForBatch net batchId options st))) = fetches (trace st) + k + 1"
    if k: "int k < m \<and> BatchResponse.status (rs k) = Batch_completed \<and> (\<forall>j<k. BatchResponse.status (rs j) \<in> {Batch_partial, Batch_processing})" for k
  proof -
  have "waitForBatch net batchId options st =
          (Inr (rs k),
           st \<lparr> trace := trace st
                  @ polls (fetch_event (this st) ''GET'' (''/batch/'' @ batchId) None)
                      (or_number (option_of options interval) 5000) k
                  @ [fetch_event (this st) ''GET'' (''/batch/'' @ batchId) None] \<rparr>)"
    unfolding waitForBatch_def Let_def m[symmetric]
    by (rule waitForBatch_loop_returns) (use k polled in auto)
  then show ?thesis
    by (simp add: fetches_simps fetches_polls)
  qed
  have B: "fst (waitForBatch net batchId options st) =
              Inl (Untyped (new_Error (''Batch '' @ batchId @ '' did not complete after ''
                     @ string_of_int m @ '' attempts'')))
            \<and> fetches (trace (snd (waitForBatch net batchId options st))) = fetches (trace st) + nat m"
    if a: "\<forall>j. int j < m \<longrightarrow> BatchResponse.status (rs j) \<in> {Batch_partial, Batch_processing}"
  proof -
  have "waitForBatch net batchId options st =
          (Inl (Untyped (new_Error (''Batch '' @ batchId @ '' did not complete after ''
                     @ string_of_int m @ '' attempts''))),
           st \<lparr> trace := trace st
                  @ polls (fetch_event (this st) ''GET'' (''/batch/'' @ batchId) None)
                      (or_number (option_of options interval) 5000) (nat m) \<rparr>)"
    unfolding waitForBatch_def Let_def m[symmetric]
    by (rule waitForBatch_loop_exhausts[where rs = rs]) (use a polled in auto)
  then show ?thesis
    by (simp add: fetches_simps fetches_polls)
  qed
  have C: "BatchResponse.status r = Batch_completed"
    if "fst (waitForBatch net batchId options st) = Inr r" for r
    using that unfolding waitForBatch_def Let_def by (rule waitForBatch_loop_completed)
  show ?thesis using A B C by blast
qed

theorem waitForBatch_only_completed_witness:
  "BatchResponse.results (example_batch Batch_completed) = [example_job Failed, example_job Completed]
   \<and> fst (waitForBatch
          (served (\<lambda>n. example_document Failed
                     (if n = 0 then Batch_processing else if n = 1 then Batch_partial
                      else Batch_completed)))
          ''batch_abc123'' None \<lparr> this = example_client, trace = [] \<rparr>)
       = Inr (example_batch Batch_completed)
   \<and> fetches (trace (snd (waitForBatch
          (served (\<lambda>n. example_document Failed
                     (if n = 0 then Batch_processing else if n = 1 then Batch_partial
                      else Batch_completed)))
          ''batch_abc123'' None \<lparr> this = example_client, trace = [] \<rparr>))) = 3"
proof -
  let ?st = "\<lparr> this = example_client, trace = [] \<rparr>"
  let ?b = "\<lambda>n::nat. if n = 0 then Batch_processing else if n = 1 then Batch_partial
                      else Batch_completed"
  let ?net = "served (\<lambda>n. example_document Failed (?b n))"
  let ?rs = "\<lambda>j::nat. example_batch (?b j)"
  have p: "\<And>j url init. map_option as_BatchResponse
             (ok_document (?net (fetches (trace ?st) + j) url init)) = Some (?rs j)"
    by (simp add: served_def ok_def example_document_def fetches_def)
  have m: "(60::int) = or_number (option_of None maxAttempts) 60"
    by (simp add: or_number_def option_of_def)
  have a: "int 2 < 60 \<and> BatchResponse.status (?rs 2) = Batch_completed
           \<and> (\<forall>j<2. BatchResponse.status (?rs j) \<in> {Batch_partial, Batch_processing})"
    by (simp add: example_batch_def)
  show ?thesis
    using waitForBatch_only_completed [where rs = ?rs and batchId = "''batch_abc123''", OF p m,
            THEN conjunct1, rule_format, OF a]
    by (simp add: fetches_def example_batch_def)
qed


subsection \<open>The configuration of a client\<close>

lemma this_request: "this (snd (request net meth path b st)) = this st"
  by (simp add: snd_request)

lemma this_getJob: "this (snd (getJob net jobId opts st)) = this st"
  by (simp add: getJob_def get_def Let_def snd_cast snd_request)

lemma this_getBatch: "this (snd (getBatch net batchId st)) = this st"
  by (simp add: getBatch_def get_def snd_cast snd_request)

lemma this_waitForJob_loop: "this (snd (waitForJob_loop net jobId d m i st)) = this st"
proof (induction net jobId d m i st rule: waitForJob_loop.induct)
  case (1 net jobId interval maxAttempts i st)
  show ?case
  proof (cases "i < maxAttempts")
    case False
    then show ?thesis by (subst waitForJob_loop.simps) simp
  next
    case True
    obtain x st1 where g: "getJob net jobId None st = (x, st1)" by (cases "getJob net jobId None st")
    have t1: "this st1 = this st" using this_getJob[of net jobId None st] g by simp
    show ?thesis
    proof (cases x)
      case (Inl e)
      then show ?thesis using True g t1 by (subst waitForJob_loop.simps) simp
    next
      case (Inr result)
      show ?thesis
      proof (cases "TranscribeResponse.status result = Completed \<or> TranscribeResponse.status result = Failed")
        case c: True
        then show ?thesis using True g Inr t1 by (subst waitForJob_loop.simps) auto
      next
        case c: False
        have "this (snd (waitForJob_loop net jobId interval maxAttempts (i + 1) (sleep interval st1))) = this st"
          using "1.IH"[OF True g[symmetric] Inr c] t1 by (simp add: sleep_def)
        then show ?thesis using True g Inr c by (subst waitForJob_loop.simps) simp
      qed
    qed
  qed
qed

lemma this_waitForBatch_loop: "this (snd (waitForBatch_loop net batchId d m i st)) = this st"
proof (induction net batchId d m i st rule: waitForBatch_loop.induct)
  case (1 net batchId interval maxAttempts i st)
  show ?case
  proof (cases "i < maxAttempts")
    case False
    then show ?thesis by (subst waitForBatch_loop.simps) simp
  next
    case True
    obtain x st1 where g: "getBatch net batchId st = (x, st1)" by (cases "getBatch net batchId st")
    have t1: "this st1 = this st" using this_getBatch[of net batchId st] g by simp
    show ?thesis
    proof (cases x)
      case (Inl e)
      then show ?thesis using True g t1 by (subst waitForBatch_loop.simps) simp
    next
      case (Inr result)
      show ?thesis
      proof (cases "BatchResponse.status result = Batch_completed")
        case c: True
        then show ?thesis using True g Inr t1 by (subst waitForBatch_loop.simps) auto
      next
        case c: False
        have "this (snd (waitForBatch_loop net batchId interval maxAttempts (i + 1) (sleep interval st1))) = this st"
          using "1.IH"[OF True g[symmetric] Inr c] t1 by (simp add: sleep_def)
        then show ?thesis using True g Inr c by (subst waitForBatch_loop.simps) simp
      qed
    qed
  qed
qed

lemma this_invoke: "this (invoke net x st) = this st"
  by (cases x)
     (simp_all add: transcribe_def getTranscript_def batch_def post_def snd_cast snd_request
        this_getJob this_getBatch waitForJob_def waitForBatch_def Let_def
        this_waitForJob_loop this_waitForBatch_loop)

lemma this_invoke_all: "this (invoke_all net xs st) = this st"
  by (induction xs arbitrary: st) (simp_all add: this_invoke)

text \<open>
  C9. After any sequence of invocations of the public operations on a constructed client,
  on any network, the \<open>apiKey\<close>, the \<open>baseUrl\<close> and the \<open>timeout\<close> of the client are what
  the constructor set.
\<close>

theorem configuration_unchanged:
  assumes "constructor opts tr = (Inr c, tr')"
  shows "YouTubeTranscript.apiKey (this (invoke_all net ops \<lparr> this = c, trace = tr' \<rparr>))
           = YouTubeTranscript.apiKey c
       \<and> YouTubeTranscript.baseUrl (this (invoke_all net ops \<lparr> this = c, trace = tr' \<rparr>))
           = YouTubeTranscript.baseUrl c
       \<and> YouTubeTranscript.timeout (this (invoke_all net ops \<lparr> this = c, trace = tr' \<rparr>))
           = YouTubeTranscript.timeout c"
  by (simp add: this_invoke_all)


theorem configuration_unchanged_witness:
  "constructor \<lparr> YouTubeTranscriptOptions.apiKey = Some ''your_api_key'',
                 YouTubeTranscriptOptions.baseUrl = Some ''https://x/'',
                 YouTubeTranscriptOptions.timeout = Some 0 \<rparr> [] = (Inr example_client, [])
   \<and> this (invoke_all (served (\<lambda>n. example_document Processing Batch_partial))
            [GetTranscript ''dQw4w9WgXcQ'' None,
             Batch \<lparr> video_ids = [''dQw4w9WgXcQ'', ''jNQXAC9IVRw''], language = None,
                     source = None, allow_asr = None, format = None, webhook_url = None \<rparr>,
             GetJob ''job_abc123'' None, WaitForJob ''job_abc123'' None,
             GetBatch ''batch_abc123'', WaitForBatch ''batch_abc123'' None]
            \<lparr> this = example_client, trace = [] \<rparr>)
       = \<lparr> apiKey = ''your_api_key'', baseUrl = ''https://x'', timeout = 30000 \<rparr>"
proof -
  have c: "constructor \<lparr> YouTubeTranscriptOptions.apiKey = Some ''your_api_key'',
                 YouTubeTranscriptOptions.baseUrl = Some ''https://x/'',
                 YouTubeTranscriptOptions.timeout = Some 0 \<rparr> [] = (Inr example_client, [])"
    by (simp add: constructor_def example_client_def strip_trailing_slashes_def or_string_def
          or_number_def DEFAULT_TIMEOUT_def)
  show ?thesis
    using c configuration_unchanged [OF c,
            of "served (\<lambda>n. example_document Processing Batch_partial)"
               "[GetTranscript ''dQw4w9WgXcQ'' None,
                 Batch \<lparr> video_ids = [''dQw4w9WgXcQ'', ''jNQXAC9IVRw''], language = None,
                     source = None, allow_asr = None, format = None, webhook_url = None \<rparr>,
                 GetJob ''job_abc123'' None, WaitForJob ''job_abc123'' None,
                 GetBatch ''batch_abc123'', WaitForBatch ''batch_abc123'' None]"]
    by (simp add: example_client_def YouTubeTranscript.equality)
qed

subsection \<open>Failures outside the typed taxonomy\<close>

lemma request_aborted:
  assumes "\<forall>url init.
             (\<exists>e. net (fetches (trace st)) url init = Rejected e \<and> Error.name e = ''AbortError'')
           \<or> (\<exists>r e. net (fetches (trace st)) url init = Resolved r \<and> json r = Inl e
                    \<and> Error.name e = ''AbortError'')"
  shows "request net meth path b st =
           (Inl (Untyped (new_Error (''Request to '' @ path @ '' timed out after ''
                   @ string_of_int (YouTubeTranscript.timeout (this st)) @ ''ms''))),
            st \<lparr> trace := trace st @ [fetch_event (this st) meth path b] \<rparr>)"
proof -
  let ?u = "YouTubeTranscript.baseUrl (this st) @ path"
  let ?i = "\<lparr> http_method = meth,
               headers = [(''Authorization'', ''Bearer '' @ YouTubeTranscript.apiKey (this st)),
                          (''Content-Type'', ''application/json''),
                          (''User-Agent'', ''youtube-transcript-sdk/1.0.0'')],
               body = b \<rparr>"
  from assms have
    "(\<exists>e. net (fetches (trace st)) ?u ?i = Rejected e \<and> Error.name e = ''AbortError'')
     \<or> (\<exists>r e. net (fetches (trace st)) ?u ?i = Resolved r \<and> json r = Inl e
              \<and> Error.name e = ''AbortError'')"
    by blast
  then have "fst (request net meth path b st) =
           Inl (Untyped (new_Error (''Request to '' @ path @ '' timed out after ''
                   @ string_of_int (YouTubeTranscript.timeout (this st)) @ ''ms'')))"
    unfolding fst_request_cases by auto
  then show ?thesis
    by (intro prod_eqI) (simp_all add: snd_request)
qed

text \<open>
  C6. When the abort timer of a request fires, while the \<open>fetch\<close> is pending or while the
  body is read (either rejects with an \<open>AbortError\<close>), \<open>request\<close> has performed its one
  \<open>fetch\<close>, with the configured timeout as the duration of the timer, and throws a plain
  \<open>Error\<close> whose message names the path and the configured timeout. When none of the first
  \<open>maxAttempts\<close> polls reaches a terminal status, \<open>waitForJob\<close> and \<open>waitForBatch\<close> have
  performed exactly \<open>maxAttempts\<close> requests, each followed by the wait, and throw a plain
  \<open>Error\<close> naming the identifier and \<open>maxAttempts\<close>. A plain \<open>Error\<close> is not an instance of
  \<open>YouTubeTranscriptError\<close>.
\<close>

theorem timeout_and_exhaustion_untyped:
  "((\<forall>url init. \<exists>e. net (fetches (trace st)) url init = Rejected e
         \<and> Error.name e = ''AbortError'')
      \<longrightarrow> request net meth path b st =
            (Inl (Untyped (new_Error (''Request to '' @ path @ '' timed out after ''
                   @ string_of_int (YouTubeTranscript.timeout (this st)) @ ''ms''))),
             st \<lparr> trace := trace st @ [fetch_event (this st) meth path b] \<rparr>))
   \<and> ((\<forall>url init. \<exists>r e. net (fetches (trace st)) url init = Resolved r \<and> json r = Inl e
         \<and> Error.name e = ''AbortError'')
      \<longrightarrow> request net meth path b st =
            (Inl (Untyped (new_Error (''Request to '' @ path @ '' timed out after ''
                   @ string_of_int (YouTubeTranscript.timeout (this st)) @ ''ms''))),
             st \<lparr> trace := trace st @ [fetch_event (this st) meth path b] \<rparr>))
   \<and> ((\<forall>j url init. map_option as_TranscribeResponse
            (ok_document (net (fetches (trace st) + j) url init)) = Some (rs j))
       \<and> (\<forall>j. int j < or_number (option_of options maxAttempts) 60 \<longrightarrow> \<not> job_terminal (rs j))
      \<longrightarrow> waitForJob net jobId options st =
            (Inl (Untyped (new_Error (''Job '' @ jobId @ '' did not complete after ''
                   @ string_of_int (or_number (option_of options maxAttempts) 60)
                   @ '' attempts''))),
             st \<lparr> trace := trace st
                    @ polls (fetch_event (this st) ''GET'' (''/jobs/'' @ jobId) None)
                        (or_number (option_of options interval) 5000)
                        (nat (or_number (option_of options maxAttempts) 60)) \<rparr>)
          \<and> fetches (trace (snd (waitForJob net jobId options st)))
              = fetches (trace st) + nat (or_number (option_of options maxAttempts) 60))
   \<and> ((\<forall>j url init. map_option as_BatchResponse
            (ok_document (net (fetches (trace st) + j) url init)) = Some (bs j))
       \<and> (\<forall>j. int j < or_number (option_of options maxAttempts) 60
              \<longrightarrow> BatchResponse.status (bs j) \<noteq> Batch_completed)
      \<longrightarrow> waitForBatch net batchId options st =
            (Inl (Untyped (new_Error (''Batch '' @ batchId @ '' did not complete after ''
                   @ string_of_int (or_number (option_of options maxAttempts) 60)
                   @ '' attempts''))),
             st \<lparr> trace := trace st
                    @ polls (fetch_event (this st) ''GET'' (''/batch/'' @ batchId) None)
                        (or_number (option_of options interval) 5000)
                        (nat (or_number (option_of options maxAttempts) 60)) \<rparr>)
          \<and> fetches (trace (snd (waitForBatch net batchId options st)))
              = fetches (trace st) + nat (or_number (option_of options maxAttempts) 60))
   \<and> (\<forall>msg. \<not> instanceof_YouTubeTranscriptError (Untyped (new_Error msg)))"
proof -
  have A1: "request net meth path b st =
            (Inl (Untyped (new_Error (''Request to '' @ path @ '' timed out after ''
                   @ string_of_int (YouTubeTranscript.timeout (this st)) @ ''ms''))),
             st \<lparr> trace := trace st @ [fetch_event (this st) meth path b] \<rparr>)"
    if "\<forall>url init. \<exists>e. net (fetches (trace st)) url init = Rejected e
         \<and> Error.name e = ''AbortError''"
    by (rule request_aborted) (use that in blast)
  have A2: "request net meth path b st =
            (Inl (Untyped (new_Error (''Request to '' @ path @ '' timed out after ''
                   @ string_of_int (YouTubeTranscript.timeout (this st)) @ ''ms''))),
             st \<lparr> trace := trace st @ [fetch_event (this st) meth path b] \<rparr>)"
    if "\<forall>url init. \<exists>r e. net (fetches (trace st)) url init = Resolved r \<and> json r = Inl e
         \<and> Error.name e = ''AbortError''"
    by (rule request_aborted) (use that in blast)
  have B: "waitForJob net jobId options st =
            (Inl (Untyped (new_Error (''Job '' @ jobId @ '' did not complete after ''
                   @ string_of_int (or_number (option_of options maxAttempts) 60)
                   @ '' attempts''))),
             st \<lparr> trace := trace st
                    @ polls (fetch_event (this st) ''GET'' (''/jobs/'' @ jobId) None)
                        (or_number (option_of options interval) 5000)
                        (nat (or_number (option_of options maxAttempts) 60)) \<rparr>)
          \<and> fetches (trace (snd (waitForJob net jobId options st)))
              = fetches (trace st) + nat (or_number (option_of options maxAttempts) 60)"
    if pn: "(\<forall>j url init. map_option as_TranscribeResponse
            (ok_document (net (fetches (trace st) + j) url init)) = Some (rs j))
       \<and> (\<forall>j. int j < or_number (option_of options maxAttempts) 60 \<longrightarrow> \<not> job_terminal (rs j))"
  proof -
    have "waitForJob net jobId options st =
          (Inl (Untyped (new_Error (''Job '' @ jobId @ '' did not complete after ''
                     @ string_of_int (or_number (option_of options maxAttempts) 60) @ '' attempts''))),
           st \<lparr> trace := trace st
                  @ polls (fetch_event (this st) ''GET'' (''/jobs/'' @ jobId) None)
                      (or_number (option_of options interval) 5000)
                      (nat (or_number (option_of options maxAttempts) 60)) \<rparr>)"
      unfolding waitForJob_def Let_def
      by (rule waitForJob_loop_exhausts[where rs = rs]) (use pn in auto)
    then show ?thesis by (simp add: fetches_simps fetches_polls)
  qed
  have C: "waitForBatch net batchId options st =
            (Inl (Untyped (new_Error (''Batch '' @ batchId @ '' did not complete after ''
                   @ string_of_int (or_number (option_of options maxAttempts) 60)
                   @ '' attempts''))),
             st \<lparr> trace := trace st
                    @ polls (fetch_event (this st) ''GET'' (''/batch/'' @ batchId) None)
                        (or_number (option_of options interval) 5000)
                        (nat (or_number (option_of options maxAttempts) 60)) \<rparr>)
          \<and> fetches (trace (snd (waitForBatch net batchId options st)))
              = fetches (trace st) + nat (or_number (option_of options maxAttempts) 60)"
    if pn: "(\<forall>j url init. map_option as_BatchResponse
            (ok_document (net (fetches (trace st) + j) url init)) = Some (bs j))
       \<and> (\<forall>j. int j < or_number (option_of options maxAttempts) 60
              \<longrightarrow> BatchResponse.status (bs j) \<noteq> Batch_completed)"
  proof -
    have "waitForBatch net batchId options st =
          (Inl (Untyped (new_Error (''Batch '' @ batchId @ '' did not complete after ''
                     @ string_of_int (or_number (option_of options maxAttempts) 60) @ '' attempts''))),
           st \<lparr> trace := trace st
                  @ polls (fetch_event (this st) ''GET'' (''/batch/'' @ batchId) None)
                      (or_number (option_of options interval) 5000)
                      (nat (or_number (option_of options maxAttempts) 60)) \<rparr>)"
      unfolding waitForBatch_def Let_def
      by (rule waitForBatch_loop_exhausts[where rs = bs]) (use pn in auto)
    then show ?thesis by (simp add: fetches_simps fetches_polls)
  qed
  have D: "\<forall>msg. \<not> instanceof_YouTubeTranscriptError (Untyped (new_Error msg))"
    by simp
  show ?thesis using A1 A2 B C D by blast
qed

theorem timeout_and_exhaustion_untyped_witness:
  "request timing_out ''POST'' ''/transcribe'' None \<lparr> this = example_client, trace = [] \<rparr>
     = (Inl (Untyped (new_Error ''Request to /transcribe timed out after 30000ms'')),
        \<lparr> this = example_client,
          trace = [fetch_event example_client ''POST'' ''/transcribe'' None] \<rparr>)
   \<and> request stalled ''POST'' ''/transcribe'' None \<lparr> this = example_client, trace = [] \<rparr>
     = (Inl (Untyped (new_Error ''Request to /transcribe timed out after 30000ms'')),
        \<lparr> this = example_client,
          trace = [fetch_event example_client ''POST'' ''/transcribe'' None] \<rparr>)
   \<and> fst (waitForJob (served (\<lambda>n. example_document Processing Batch_partial)) ''job_abc123''
            (Some \<lparr> interval = None, maxAttempts = Some 3 \<rparr>)
            \<lparr> this = example_client, trace = [] \<rparr>)
     = Inl (Untyped (new_Error ''Job job_abc123 did not complete after 3 attempts''))
   \<and> fetches (trace (snd (waitForJob (served (\<lambda>n. example_document Processing Batch_partial))
            ''job_abc123'' (Some \<lparr> interval = None, maxAttempts = Some 3 \<rparr>)
            \<lparr> this = example_client, trace = [] \<rparr>))) = 3
   \<and> fst (waitForBatch (served (\<lambda>n. example_document Processing Batch_partial)) ''batch_abc123''
            (Some \<lparr> interval = None, maxAttempts = Some 3 \<rparr>)
            \<lparr> this = example_client, trace = [] \<rparr>)
     = Inl (Untyped (new_Error ''Batch batch_abc123 did not complete after 3 attempts''))
   \<and> fetches (trace (snd (waitForBatch (served (\<lambda>n. example_document Processing Batch_partial))
            ''batch_abc123'' (Some \<lparr> interval = None, maxAttempts = Some 3 \<rparr>)
            \<lparr> this = example_client, trace = [] \<rparr>))) = 3"
proof -
  let ?st = "\<lparr> this = example_client, trace = [] \<rparr>"
  let ?net = "served (\<lambda>n. example_document Processing Batch_partial)"
  let ?o = "Some \<lparr> interval = None, maxAttempts = Some 3 \<rparr>"
  have s1: "string_of_int (YouTubeTranscript.timeout (this ?st)) = ''30000''"
    by (simp add: example_client_def string_of_int_eval)
  have m: "or_number (option_of ?o maxAttempts) 60 = 3"
    by (simp add: or_number_def option_of_def)
  have s2: "string_of_int 3 = ''3''"
    by (simp add: string_of_int_eval)
  have t: "\<forall>url init. \<exists>e. timing_out (fetches (trace ?st)) url init = Rejected e
             \<and> Error.name e = ''AbortError''"
    by (simp add: timing_out_def)
  have u: "\<forall>url init. \<exists>r e. stalled (fetches (trace ?st)) url init = Resolved r
             \<and> json r = Inl e \<and> Error.name e = ''AbortError''"
    by (simp add: stalled_def)
  have pj: "(\<forall>j url init. map_option as_TranscribeResponse
            (ok_document (?net (fetches (trace ?st) + j) url init)) = Some (example_job Processing))
       \<and> (\<forall>j. int j < or_number (option_of ?o maxAttempts) 60
              \<longrightarrow> \<not> job_terminal (example_job Processing))"
    by (simp add: served_def ok_def example_document_def job_terminal_def example_job_def)
  have pb: "(\<forall>j url init. map_option as_BatchResponse
            (ok_document (?net (fetches (trace ?st) + j) url init)) = Some (example_batch Batch_partial))
       \<and> (\<forall>j. int j < or_number (option_of ?o maxAttempts) 60
              \<longrightarrow> BatchResponse.status (example_batch Batch_partial) \<noteq> Batch_completed)"
    by (simp add: served_def ok_def example_document_def example_batch_def)
  show ?thesis
    using timeout_and_exhaustion_untyped
            [where net = timing_out and st = ?st and meth = "''POST''" and path = "''/transcribe''"
               and b = None, THEN conjunct1, THEN mp, OF t]
          timeout_and_exhaustion_untyped
            [where net = stalled and st = ?st and meth = "''POST''" and path = "''/transcribe''"
               and b = None, THEN conjunct2, THEN conjunct1, THEN mp, OF u]
          timeout_and_exhaustion_untyped
            [where net = ?net and st = ?st and rs = "\<lambda>j. example_job Processing" and options = ?o
               and jobId = "''job_abc123''",
             THEN conjunct2, THEN conjunct2, THEN conjunct1, THEN mp, OF pj]
          timeout_and_exhaustion_untyped
            [where net = ?net and st = ?st and bs = "\<lambda>j. example_batch Batch_partial"
               and options = ?o and batchId = "''batch_abc123''",
             THEN conjunct2, THEN conjunct2, THEN conjunct2, THEN conjunct1, THEN mp, OF pb]
    unfolding s1 m s2 by (simp add: fetches_simps(1) fetches_polls)
qed

subsection \<open>Options supplied as 0\<close>

lemma fetches_getJob:
  "fetches (trace (snd (getJob net jobId opts st))) = Suc (fetches (trace st))"
  by (simp add: getJob_def get_def Let_def snd_cast snd_request fetches_simps)

lemma fetches_getBatch:
  "fetches (trace (snd (getBatch net batchId st))) = Suc (fetches (trace st))"
  by (simp add: getBatch_def get_def snd_cast snd_request fetches_simps)

lemma fetches_waitForJob_loop:
  "fetches (trace st) + (if i < m then 1 else 0)
     \<le> fetches (trace (snd (waitForJob_loop net jobId d m i st)))"
proof (induction net jobId d m i st rule: waitForJob_loop.induct)
  case (1 net jobId interval maxAttempts i st)
  show ?case
  proof (cases "i < maxAttempts")
    case False
    then show ?thesis by (subst waitForJob_loop.simps) simp
  next
    case True
    obtain x st1 where g: "getJob net jobId None st = (x, st1)" by (cases "getJob net jobId None st")
    have f1: "fetches (trace st1) = Suc (fetches (trace st))"
      using fetches_getJob[of net jobId None st] g by simp
    show ?thesis
    proof (cases x)
      case (Inl e)
      then show ?thesis using True g f1 by (subst waitForJob_loop.simps) simp
    next
      case (Inr result)
      show ?thesis
      proof (cases "TranscribeResponse.status result = Completed \<or> TranscribeResponse.status result = Failed")
        case c: True
        then show ?thesis using True g Inr f1 by (subst waitForJob_loop.simps) auto
      next
        case c: False
        have "fetches (trace (sleep interval st1))
            \<le> fetches (trace (snd (waitForJob_loop net jobId interval maxAttempts (i + 1) (sleep interval st1))))"
          using "1.IH"[OF True g[symmetric] Inr c] by (simp split: if_splits)
        then show ?thesis using True g Inr c f1
          by (subst waitForJob_loop.simps) (simp add: sleep_def fetches_simps)
      qed
    qed
  qed
qed

lemma fetches_waitForBatch_loop:
  "fetches (trace st) + (if i < m then 1 else 0)
     \<le> fetches (trace (snd (waitForBatch_loop net batchId d m i st)))"
proof (induction net batchId d m i st rule: waitForBatch_loop.induct)
  case (1 net batchId interval maxAttempts i st)
  show ?case
  proof (cases "i < maxAttempts")
    case False
    then show ?thesis by (subst waitForBatch_loop.simps) simp
  next
    case True
    obtain x st1 where g: "getBatch net batchId st = (x, st1)" by (cases "getBatch net batchId st")
    have f1: "fetches (trace st1) = Suc (fetches (trace st))"
      using fetches_getBatch[of net batchId st] g by simp
    show ?thesis
    proof (cases x)
      case (Inl e)
      then show ?thesis using True g f1 by (subst waitForBatch_loop.simps) simp
    next
      case (Inr result)
      show ?thesis
      proof (cases "BatchResponse.status result = Batch_completed")
        case c: True
        then show ?thesis using True g Inr f1 by (subst waitForBatch_loop.simps) auto
      next
        case c: False
        have "fetches (trace (sleep interval st1))
            \<le> fetches (trace (snd (waitForBatch_loop net batchId interval maxAttempts (i + 1) (sleep interval st1))))"
          using "1.IH"[OF True g[symmetric] Inr c] by (simp split: if_splits)
        then show ?thesis using True g Inr c f1
          by (subst waitForBatch_loop.simps) (simp add: sleep_def fetches_simps)
      qed
    qed
  qed
qed

text \<open>
  C10, as stated, fails in its last part: polling can be configured to make zero attempts.
  A negative \<open>maxAttempts\<close> is truthy, so it is kept; the loop body never runs, and
  \<open>waitForJob\<close> throws without one request, even against a server that would have
  answered \<open>completed\<close> at once.
\<close>

theorem polling_negative_maxAttempts_counterexample:
  "waitForJob (served (\<lambda>n. example_document Completed Batch_completed)) ''job_abc123''
     (Some \<lparr> interval = None, maxAttempts = Some (- 1) \<rparr>)
     \<lparr> this = example_client, trace = [] \<rparr>
   = (Inl (Untyped (new_Error ''Job job_abc123 did not complete after -1 attempts'')),
      \<lparr> this = example_client, trace = [] \<rparr>)"
  by (simp add: waitForJob_def Let_def or_number_def option_of_def waitForJob_loop.simps
        string_of_int_eval)

text \<open>
  C10, amended. An option supplied as 0 is replaced by the default: a client constructed
  with \<open>timeout\<close> 0 has the timeout 30000; \<open>waitForJob\<close> and \<open>waitForBatch\<close> called with
  \<open>interval\<close> 0 behave as with 5000, and with \<open>maxAttempts\<close> 0 as with 60. So the
  interval and the \<open>maxAttempts\<close> in effect are never 0, and polling with \<open>maxAttempts\<close>
  absent, 0 or positive performs at least one request.
\<close>

theorem zero_options_replaced_by_defaults:
  "(\<forall>k b tr. k \<noteq> [] \<longrightarrow>
      (\<exists>c. constructor \<lparr> YouTubeTranscriptOptions.apiKey = Some k,
                           YouTubeTranscriptOptions.baseUrl = b,
                           YouTubeTranscriptOptions.timeout = Some 0 \<rparr> tr = (Inr c, tr)
           \<and> YouTubeTranscript.timeout c = 30000))
   \<and> waitForJob net jobId (Some \<lparr> interval = Some 0, maxAttempts = Some 0 \<rparr>) st
       = waitForJob_loop net jobId 5000 60 0 st
   \<and> waitForBatch net batchId (Some \<lparr> interval = Some 0, maxAttempts = Some 0 \<rparr>) st
       = waitForBatch_loop net batchId 5000 60 0 st
   \<and> (\<forall>ma. waitForJob net jobId (Some \<lparr> interval = Some 0, maxAttempts = ma \<rparr>) st
            = waitForJob net jobId (Some \<lparr> interval = Some 5000, maxAttempts = ma \<rparr>) st
          \<and> waitForBatch net batchId (Some \<lparr> interval = Some 0, maxAttempts = ma \<rparr>) st
            = waitForBatch net batchId (Some \<lparr> interval = Some 5000, maxAttempts = ma \<rparr>) st)
   \<and> (\<forall>iv. waitForJob net jobId (Some \<lparr> interval = iv, maxAttempts = Some 0 \<rparr>) st
            = waitForJob net jobId (Some \<lparr> interval = iv, maxAttempts = Some 60 \<rparr>) st
          \<and> waitForBatch net batchId (Some \<lparr> interval = iv, maxAttempts = Some 0 \<rparr>) st
            = waitForBatch net batchId (Some \<lparr> interval = iv, maxAttempts = Some 60 \<rparr>) st)
   \<and> (\<forall>options. \<exists>d m. d \<noteq> 0 \<and> m \<noteq> 0
          \<and> waitForJob net jobId options st = waitForJob_loop net jobId d m 0 st
          \<and> waitForBatch net batchId options st = waitForBatch_loop net batchId d m 0 st)
   \<and> (\<forall>options. (\<forall>n. option_of options maxAttempts = Some n \<longrightarrow> 0 \<le> n) \<longrightarrow>
          fetches (trace st) < fetches (trace (snd (waitForJob net jobId options st)))
          \<and> fetches (trace st) < fetches (trace (snd (waitForBatch net batchId options st))))"
proof -
  have A: "\<exists>c. constructor \<lparr> YouTubeTranscriptOptions.apiKey = Some k,
                           YouTubeTranscriptOptions.baseUrl = b,
                           YouTubeTranscriptOptions.timeout = Some 0 \<rparr> tr = (Inr c, tr)
           \<and> YouTubeTranscript.timeout c = 30000" if "k \<noteq> []" for k b tr
    using that by (simp add: constructor_def or_number_def DEFAULT_TIMEOUT_def)
  have B: "waitForJob net jobId (Some \<lparr> interval = Some 0, maxAttempts = Some 0 \<rparr>) st
       = waitForJob_loop net jobId 5000 60 0 st"
    "waitForBatch net batchId (Some \<lparr> interval = Some 0, maxAttempts = Some 0 \<rparr>) st
       = waitForBatch_loop net batchId 5000 60 0 st"
    by (simp_all add: waitForJob_def waitForBatch_def Let_def or_number_def option_of_def)
  have C: "waitForJob net jobId (Some \<lparr> interval = Some 0, maxAttempts = ma \<rparr>) st
            = waitForJob net jobId (Some \<lparr> interval = Some 5000, maxAttempts = ma \<rparr>) st
          \<and> waitForBatch net batchId (Some \<lparr> interval = Some 0, maxAttempts = ma \<rparr>) st
            = waitForBatch net batchId (Some \<lparr> interval = Some 5000, maxAttempts = ma \<rparr>) st" for ma
    by (simp add: waitForJob_def waitForBatch_def Let_def or_number_def option_of_def)
  have D: "waitForJob net jobId (Some \<lparr> interval = iv, maxAttempts = Some 0 \<rparr>) st
            = waitForJob net jobId (Some \<lparr> interval = iv, maxAttempts = Some 60 \<rparr>) st
          \<and> waitForBatch net batchId (Some \<lparr> interval = iv, maxAttempts = Some 0 \<rparr>) st
            = waitForBatch net batchId (Some \<lparr> interval = iv, maxAttempts = Some 60 \<rparr>) st" for iv
    by (simp add: waitForJob_def waitForBatch_def Let_def or_number_def option_of_def)
  have nz: "or_number v d \<noteq> 0" if "d \<noteq> 0" for v d
    using that by (cases v) (simp_all add: or_number_def)
  have E: "\<exists>d m. d \<noteq> 0 \<and> m \<noteq> 0
          \<and> waitForJob net jobId options st = waitForJob_loop net jobId d m 0 st
          \<and> waitForBatch net batchId options st = waitForBatch_loop net batchId d m 0 st" for options
    unfolding waitForJob_def waitForBatch_def Let_def
    by (intro exI[of _ "or_number (option_of options interval) 5000"]
              exI[of _ "or_number (option_of options maxAttempts) 60"])
       (simp add: nz)
  have F: "fetches (trace st) < fetches (trace (snd (waitForJob net jobId options st)))
          \<and> fetches (trace st) < fetches (trace (snd (waitForBatch net batchId options st)))"
    if a: "\<forall>n. option_of options maxAttempts = Some n \<longrightarrow> 0 \<le> n" for options
  proof -
    have "0 < or_number (option_of options maxAttempts) 60"
      using a by (cases "option_of options maxAttempts") (auto simp: or_number_def)
    then show ?thesis
      unfolding waitForJob_def waitForBatch_def Let_def
      using fetches_waitForJob_loop[of st 0 "or_number (option_of options maxAttempts) 60" net jobId
              "or_number (option_of options interval) 5000"]
            fetches_waitForBatch_loop[of st 0 "or_number (option_of options maxAttempts) 60" net batchId
              "or_number (option_of options interval) 5000"]
      by simp
  qed
  show ?thesis using A B C D E F by blast
qed

theorem zero_options_replaced_by_defaults_witness:
  "(\<exists>c. constructor \<lparr> YouTubeTranscriptOptions.apiKey = Some ''your_api_key'',
                       YouTubeTranscriptOptions.baseUrl = None,
                       YouTubeTranscriptOptions.timeout = Some 0 \<rparr> [] = (Inr c, [])
        \<and> YouTubeTranscript.timeout c = 30000)
   \<and> 0 < fetches (trace (snd (waitForJob timing_out ''job_abc123''
                                  (Some \<lparr> interval = Some 0, maxAttempts = Some 0 \<rparr>)
                                  \<lparr> this = example_client, trace = [] \<rparr>)))"
proof -
  have k: "''your_api_key'' \<noteq> []" by simp
  have n: "\<forall>n. option_of (Some \<lparr> interval = Some 0, maxAttempts = Some 0 \<rparr>) maxAttempts = Some n
             \<longrightarrow> 0 \<le> n"
    by (simp add: option_of_def)
  show ?thesis
    using zero_options_replaced_by_defaults
            [THEN conjunct1, rule_format, OF k, of None "[]"]
          zero_options_replaced_by_defaults
            [where net = timing_out and jobId = "''job_abc123''"
               and st = "\<lparr> this = example_client, trace = [] \<rparr>",
             THEN conjunct2, THEN conjunct2, THEN conjunct2, THEN conjunct2, THEN conjunct2,
             THEN conjunct2, rule_format, OF n[rule_format], THEN conjunct1]
    by (simp add: fetches_def)
qed

end
